theory Spec2Isabelle
  imports Complex_Main
begin

section \<open>Common data\<close>

text \<open>
  \<open>LOG(FATAL)\<close> of glog prints its message and aborts the process. Every such call
  of the source is a branch of the model that returns \<open>Inl (Fatal msg)\<close>; an
  exception that nothing catches is \<open>Inl (Exception msg)\<close>; a function that runs to
  its end returns \<open>Inr\<close> of its outputs.
\<close>

datatype error = Fatal string | Exception string

type_synonym vec3 = "real \<times> real \<times> real"

section \<open>Depth lookup (tools/rig\_calibrator.cc, depthValue)\<close>

text \<open>
  A \<open>cv::Mat\<close> of \<open>cv::Vec3f\<close>: its two dimensions and the stored values in
  row-major order. \<open>mat_at\<close> is \<open>depth_cloud.at<cv::Vec3f>(row, col)\<close>; the source only
  calls it after both range tests, which the model keeps in the same order.
\<close>

record depth_cloud =
  rows :: int
  cols :: int
  data :: "vec3 list"

definition mat_at :: "depth_cloud \<Rightarrow> int \<Rightarrow> int \<Rightarrow> vec3" where
  "mat_at depth_cloud row col = data depth_cloud ! nat (row * cols depth_cloud + col)"

text \<open>
  C's \<open>round\<close>: to the nearest integer, halfway cases away from zero. The source
  assigns the result to an \<open>int\<close>; pixel coordinates are far inside the range of
  \<open>int\<close>, so the conversion is taken as exact.
\<close>

definition c_round :: "real \<Rightarrow> int" where
  "c_round x = (if 0 \<le> x then \<lfloor>x + 1 / 2\<rfloor> else \<lceil>x - 1 / 2\<rceil>)"

text \<open>
  The result pairs the returned \<open>bool\<close> with the output parameter \<open>depth_xyz\<close>,
  which the source sets to \<open>(0, 0, 0)\<close> before anything else.
\<close>

definition depthValue :: "depth_cloud \<Rightarrow> real \<times> real \<Rightarrow> error + (bool \<times> vec3)" where
  "depthValue depth_cloud dist_ip =
     (if cols depth_cloud = 0 \<and> rows depth_cloud = 0 then Inr (False, (0, 0, 0))
      else
        let col = c_round (fst dist_ip);
            row = c_round (snd dist_ip)
        in
          if col < 0 \<or> row < 0 \<or> col > cols depth_cloud \<or> row > rows depth_cloud
          then Inl (Fatal ''Out of range in depth cloud.'')
          else if col = cols depth_cloud \<or> row = rows depth_cloud
          then Inr (False, (0, 0, 0))
          else
            let cv_depth_xyz = mat_at depth_cloud row col
            in if cv_depth_xyz = (0, 0, 0) then Inr (False, (0, 0, 0))
               else Inr (True, cv_depth_xyz))"

section \<open>Pose interpolation (tools/rig\_calibrator.cc, calc\_world\_to\_cam\_trans)\<close>

text \<open>
  \<open>array_to_rigid_transform\<close>, \<open>linearInterp\<close> and the product of two
  \<open>Eigen::Affine3d\<close> are defined outside the two files modelled here; they are parameters of the
  model (\<open>a2r\<close>, \<open>interp\<close>, \<open>mul\<close>), over any type \<open>'aff\<close> of transforms and any
  type \<open>'arr\<close> of parameter arrays. The time stamps are of any type with a
  subtraction, a division and an order: nothing is assumed of these operations, so
  the order in which the source applies them is the order of the model.
\<close>

definition calc_world_to_cam_trans ::
  "('arr \<Rightarrow> 'aff) \<Rightarrow> ('t \<Rightarrow> 'aff \<Rightarrow> 'aff \<Rightarrow> 'aff) \<Rightarrow> ('aff \<Rightarrow> 'aff \<Rightarrow> 'aff) \<Rightarrow>
   'arr \<Rightarrow> 'arr \<Rightarrow> 'arr \<Rightarrow> 't \<Rightarrow> 't \<Rightarrow> 't \<Rightarrow> ('t :: {minus, inverse, ord, zero, one}) \<Rightarrow>
   error + 'aff" where
  "calc_world_to_cam_trans a2r interp mul
     beg_world_to_ref_t end_world_to_ref_t ref_to_cam_trans
     beg_ref_stamp end_ref_stamp ref_to_cam_offset cam_stamp =
     (let beg_world_to_ref_aff = a2r beg_world_to_ref_t
      in
        if beg_ref_stamp = end_ref_stamp then Inr beg_world_to_ref_aff
        else
          let end_world_to_ref_aff = a2r end_world_to_ref_t;
              ref_to_cam_aff = a2r ref_to_cam_trans;
              alpha = ((cam_stamp - beg_ref_stamp) - ref_to_cam_offset)
                        / (end_ref_stamp - beg_ref_stamp)
          in
            if alpha < 0 \<or> alpha > 1 then Inl (Fatal ''Out of bounds in interpolation.'')
            else
              let interp_world_to_ref_aff =
                    interp alpha beg_world_to_ref_aff end_world_to_ref_aff
              in Inr (mul ref_to_cam_aff interp_world_to_ref_aff))"

section \<open>Tracks and the inlier mask\<close>

text \<open>
  A \<open>double\<close> whose special values matter to the control flow: the tests
  \<open>std::isnan\<close> and \<open>std::isinf\<close> of the source, and comparisons, which are false
  on NaN. Arithmetic on finite values is taken as exact.
\<close>

datatype dbl = Finite real | PInf | NInf | NaN

fun isnan :: "dbl \<Rightarrow> bool" where
  "isnan NaN = True"
| "isnan _ = False"

fun isinf :: "dbl \<Rightarrow> bool" where
  "isinf PInf = True"
| "isinf NInf = True"
| "isinf _ = False"

type_synonym xyz = "dbl \<times> dbl \<times> dbl"

text \<open>
  A track \<open>pid_to_cid_fid[pid]\<close> is a \<open>std::map<int, int>\<close> from \<open>cid\<close> to \<open>fid\<close>;
  the source only iterates over it, so it is the list of its pairs in iteration order
  (increasing \<open>cid\<close>, each \<open>cid\<close> once). The three-level tables
  \<open>std::vector<std::map<int, std::map<int, T>>>\<close> are only read with \<open>find\<close> and
  written with \<open>operator[]\<close>, so their two inner levels are maps.
\<close>

type_synonym track = "(int \<times> int) list"

type_synonym 'v pid_cid_fid = "(int \<rightharpoonup> (int \<rightharpoonup> 'v)) list"

definition getMapValue :: "'v pid_cid_fid \<Rightarrow> nat \<Rightarrow> int \<Rightarrow> int \<Rightarrow> error + 'v" where
  "getMapValue pid_cid_fid pid cid fid =
     (if length pid_cid_fid \<le> pid then Inl (Fatal ''Current pid is out of range.'')
      else
        case (pid_cid_fid ! pid) cid of
          None \<Rightarrow> Inl (Fatal ''Current cid it out of range.'')
        | Some fid_map \<Rightarrow>
            (case fid_map fid of
               None \<Rightarrow> Inl (Fatal ''Current fid is out of range.'')
             | Some v \<Rightarrow> Inr v))"

definition setMapValue ::
  "int pid_cid_fid \<Rightarrow> nat \<Rightarrow> int \<Rightarrow> int \<Rightarrow> int \<Rightarrow> error + int pid_cid_fid" where
  "setMapValue pid_cid_fid pid cid fid val =
     (if length pid_cid_fid \<le> pid then Inl (Fatal ''Current pid is out of range.'')
      else
        case (pid_cid_fid ! pid) cid of
          None \<Rightarrow> Inl (Fatal ''Current cid it out of range.'')
        | Some fid_map \<Rightarrow>
            (case fid_map fid of
               None \<Rightarrow> Inl (Fatal ''Current fid is out of range.'')
             | Some v \<Rightarrow>
                 Inr (pid_cid_fid[pid := (pid_cid_fid ! pid)(cid \<mapsto> fid_map(fid \<mapsto> val))])))"

text \<open>The plain content of a table entry, \<open>None\<close> where the entry does not exist.\<close>

definition entry :: "'v pid_cid_fid \<Rightarrow> nat \<Rightarrow> int \<Rightarrow> int \<Rightarrow> 'v option" where
  "entry pid_cid_fid pid cid fid =
     (if length pid_cid_fid \<le> pid then None
      else case (pid_cid_fid ! pid) cid of None \<Rightarrow> None | Some fid_map \<Rightarrow> fid_map fid)"

text \<open>\<open>std::vector::resize\<close>: cut, or fill up with copies of a default element.\<close>

definition resize :: "nat \<Rightarrow> 'a \<Rightarrow> 'a list \<Rightarrow> 'a list" where
  "resize n dflt xs = take n xs @ replicate (n - length xs) dflt"

section \<open>Multi-view triangulation of the tracks\<close>

text \<open>
  What the loop pushes for one inlier observation (focal length, world-to-camera
  transform, undistorted pixel) is a value \<open>ray cid fid\<close> of any type \<open>'ray\<close>;
  \<open>Triangulate\<close> (openMVG's solver behind it) is the parameter \<open>tri\<close>. The first
  loop over a track collects the rays of its inliers; the second one, taken when fewer
  than two are left, flags every member of the track.
\<close>

fun collect_rays ::
  "(int \<Rightarrow> int \<Rightarrow> 'ray) \<Rightarrow> int pid_cid_fid \<Rightarrow> nat \<Rightarrow> track \<Rightarrow> error + 'ray list" where
  "collect_rays ray inlier pid [] = Inr []"
| "collect_rays ray inlier pid ((cid, fid) # rest) =
     (case getMapValue inlier pid cid fid of
        Inl e \<Rightarrow> Inl e
      | Inr v \<Rightarrow>
          (case collect_rays ray inlier pid rest of
             Inl e \<Rightarrow> Inl e
           | Inr pix_vec \<Rightarrow> if v = 0 then Inr pix_vec else Inr (ray cid fid # pix_vec)))"

fun set_all_outliers :: "int pid_cid_fid \<Rightarrow> nat \<Rightarrow> track \<Rightarrow> error + int pid_cid_fid" where
  "set_all_outliers inlier pid [] = Inr inlier"
| "set_all_outliers inlier pid ((cid, fid) # rest) =
     (case setMapValue inlier pid cid fid 0 of
        Inl e \<Rightarrow> Inl e
      | Inr inlier' \<Rightarrow> set_all_outliers inlier' pid rest)"

text \<open>
  The version of tools/rig\_calibrator.cc, which the optimization driver in the same
  file calls. The loop runs over \<open>pid\<close>, here over the tracks that remain, with
  \<open>pid\<close> counted up.
\<close>

fun triangulate_tracks ::
  "(int \<Rightarrow> int \<Rightarrow> 'ray) \<Rightarrow> ('ray list \<Rightarrow> xyz) \<Rightarrow> nat \<Rightarrow> track list \<Rightarrow>
   int pid_cid_fid \<Rightarrow> xyz list \<Rightarrow> error + (int pid_cid_fid \<times> xyz list)" where
  "triangulate_tracks ray tri pid [] inlier xyz_vec = Inr (inlier, xyz_vec)"
| "triangulate_tracks ray tri pid (t # rest) inlier xyz_vec =
     (case collect_rays ray inlier pid t of
        Inl e \<Rightarrow> Inl e
      | Inr pix_vec \<Rightarrow>
          if length pix_vec < 2 then
            (case set_all_outliers inlier pid t of
               Inl e \<Rightarrow> Inl e
             | Inr inlier' \<Rightarrow> triangulate_tracks ray tri (Suc pid) rest inlier' xyz_vec)
          else triangulate_tracks ray tri (Suc pid) rest inlier (xyz_vec[pid := tri pix_vec]))"

definition multiViewTriangulation ::
  "(int \<Rightarrow> int \<Rightarrow> 'ray) \<Rightarrow> ('ray list \<Rightarrow> xyz) \<Rightarrow> xyz \<Rightarrow> track list \<Rightarrow>
   int pid_cid_fid \<Rightarrow> xyz list \<Rightarrow> error + (int pid_cid_fid \<times> xyz list)" where
  "multiViewTriangulation ray tri xyz_dflt pid_to_cid_fid pid_cid_fid_inlier xyz_vec =
     triangulate_tracks ray tri 0 pid_to_cid_fid pid_cid_fid_inlier
       (resize (length pid_to_cid_fid) xyz_dflt xyz_vec)"

text \<open>
  The version of rig\_calibrator/src/interest\_point.cc: the same loop, followed by
  the test of the triangulated point for NaN and Inf.
\<close>

definition bad_xyz :: "xyz \<Rightarrow> bool" where
  "bad_xyz p =
     (case p of (x, y, z) \<Rightarrow>
        (isinf x \<or> isnan x) \<or> (isinf y \<or> isnan y) \<or> (isinf z \<or> isnan z))"

fun triangulate_tracks_ip ::
  "(int \<Rightarrow> int \<Rightarrow> 'ray) \<Rightarrow> ('ray list \<Rightarrow> xyz) \<Rightarrow> nat \<Rightarrow> track list \<Rightarrow>
   int pid_cid_fid \<Rightarrow> xyz list \<Rightarrow> error + (int pid_cid_fid \<times> xyz list)" where
  "triangulate_tracks_ip ray tri pid [] inlier xyz_vec = Inr (inlier, xyz_vec)"
| "triangulate_tracks_ip ray tri pid (t # rest) inlier xyz_vec =
     (case collect_rays ray inlier pid t of
        Inl e \<Rightarrow> Inl e
      | Inr pix_vec \<Rightarrow>
          if length pix_vec < 2 then
            (case set_all_outliers inlier pid t of
               Inl e \<Rightarrow> Inl e
             | Inr inlier' \<Rightarrow> triangulate_tracks_ip ray tri (Suc pid) rest inlier' xyz_vec)
          else
            let xyz_vec' = xyz_vec[pid := tri pix_vec]
            in if bad_xyz (xyz_vec' ! pid) then
                 (case set_all_outliers inlier pid t of
                    Inl e \<Rightarrow> Inl e
                  | Inr inlier' \<Rightarrow>
                      triangulate_tracks_ip ray tri (Suc pid) rest inlier' xyz_vec')
               else triangulate_tracks_ip ray tri (Suc pid) rest inlier xyz_vec')"

definition multiViewTriangulation_ip ::
  "(int \<Rightarrow> int \<Rightarrow> 'ray) \<Rightarrow> ('ray list \<Rightarrow> xyz) \<Rightarrow> xyz \<Rightarrow> track list \<Rightarrow>
   int pid_cid_fid \<Rightarrow> xyz list \<Rightarrow> error + (int pid_cid_fid \<times> xyz list)" where
  "multiViewTriangulation_ip ray tri xyz_dflt pid_to_cid_fid pid_cid_fid_inlier xyz_vec =
     triangulate_tracks_ip ray tri 0 pid_to_cid_fid pid_cid_fid_inlier
       (resize (length pid_to_cid_fid) xyz_dflt [])"

section \<open>The outlier flaggers\<close>

text \<open>
  Modelled from the spec: \<open>camera::CameraParameters\<close> and \<open>dense_map::cameraImage\<close>
  are declared in headers outside the files modelled here. The spec gives a camera model as focal
  length, principal point, distortion vector and image sizes; the setter
  \<open>SetFocalLength\<close> takes the pair of the two focal lengths, as its call in the
  driver shows, and each setter stores its argument. Of an acquisition, the sensor id
  and the image name are used.
\<close>

record CameraParameters =
  focal_length :: "real \<times> real"
  optical_offset :: "real \<times> real"
  distortion :: "real list"
  distorted_size :: "int \<times> int"

definition SetFocalLength :: "real \<times> real \<Rightarrow> CameraParameters \<Rightarrow> CameraParameters" where
  "SetFocalLength f p = p\<lparr>focal_length := f\<rparr>"

definition SetOpticalOffset :: "real \<times> real \<Rightarrow> CameraParameters \<Rightarrow> CameraParameters" where
  "SetOpticalOffset c p = p\<lparr>optical_offset := c\<rparr>"

definition SetDistortion :: "real list \<Rightarrow> CameraParameters \<Rightarrow> CameraParameters" where
  "SetDistortion d p = p\<lparr>distortion := d\<rparr>"

record cameraImage =
  camera_type :: int
  image_name :: string

text \<open>
  \<open>flagOutlierByExclusionDist\<close> creates the mask: it resizes it to the number of
  tracks and writes 1 into every entry with \<open>operator[]\<close>, which creates the entry;
  for a pixel of the reference sensor in the boundary band it then writes 0. The
  vectors \<open>cams\<close>, \<open>cam_params\<close> and \<open>keypoint_vec\<close> are indexed without a test.
\<close>

definition set_entry :: "int pid_cid_fid \<Rightarrow> nat \<Rightarrow> int \<Rightarrow> int \<Rightarrow> int \<Rightarrow> int pid_cid_fid" where
  "set_entry pid_cid_fid pid cid fid val =
     pid_cid_fid[pid := (pid_cid_fid ! pid)
       (cid \<mapsto> (case (pid_cid_fid ! pid) cid of None \<Rightarrow> Map.empty | Some fid_map \<Rightarrow> fid_map)
                  (fid \<mapsto> val))]"

definition at_boundary :: "int \<Rightarrow> int \<times> int \<Rightarrow> real \<times> real \<Rightarrow> bool" where
  "at_boundary excl dist_size dist_ip =
     (fst dist_ip < of_int excl \<or> fst dist_ip > of_int (fst dist_size - 1 - excl) \<or>
      snd dist_ip < of_int excl \<or> snd dist_ip > of_int (snd dist_size - 1 - excl))"

fun exclude_track ::
  "int \<Rightarrow> int \<Rightarrow> CameraParameters list \<Rightarrow> cameraImage list \<Rightarrow> (real \<times> real) list list \<Rightarrow>
   nat \<Rightarrow> track \<Rightarrow> int pid_cid_fid \<Rightarrow> error + int pid_cid_fid" where
  "exclude_track ref_cam_type excl cam_params cams keypoint_vec pid [] inlier = Inr inlier"
| "exclude_track ref_cam_type excl cam_params cams keypoint_vec pid ((cid, fid) # rest) inlier =
     (let inlier1 = set_entry inlier pid cid fid 1;
          ct = camera_type (cams ! nat cid)
      in
        case (if ct = ref_cam_type \<and>
                 at_boundary excl (distorted_size (cam_params ! nat ct))
                   (keypoint_vec ! nat cid ! nat fid)
              then setMapValue inlier1 pid cid fid 0
              else Inr inlier1) of
          Inl e \<Rightarrow> Inl e
        | Inr inlier2 \<Rightarrow>
            exclude_track ref_cam_type excl cam_params cams keypoint_vec pid rest inlier2)"

fun exclude_tracks ::
  "int \<Rightarrow> int \<Rightarrow> CameraParameters list \<Rightarrow> cameraImage list \<Rightarrow> (real \<times> real) list list \<Rightarrow>
   nat \<Rightarrow> track list \<Rightarrow> int pid_cid_fid \<Rightarrow> error + int pid_cid_fid" where
  "exclude_tracks ref_cam_type excl cam_params cams keypoint_vec pid [] inlier = Inr inlier"
| "exclude_tracks ref_cam_type excl cam_params cams keypoint_vec pid (t # rest) inlier =
     (case exclude_track ref_cam_type excl cam_params cams keypoint_vec pid t inlier of
        Inl e \<Rightarrow> Inl e
      | Inr inlier' \<Rightarrow>
          exclude_tracks ref_cam_type excl cam_params cams keypoint_vec (Suc pid) rest inlier')"

definition flagOutlierByExclusionDist ::
  "int \<Rightarrow> int \<Rightarrow> CameraParameters list \<Rightarrow> cameraImage list \<Rightarrow> track list \<Rightarrow>
   (real \<times> real) list list \<Rightarrow> int pid_cid_fid \<Rightarrow> error + int pid_cid_fid" where
  "flagOutlierByExclusionDist ref_cam_type nav_cam_num_exclude_boundary_pixels cam_params cams
     pid_to_cid_fid keypoint_vec pid_cid_fid_inlier =
     exclude_tracks ref_cam_type nav_cam_num_exclude_boundary_pixels cam_params cams keypoint_vec
       0 pid_to_cid_fid (resize (length pid_to_cid_fid) Map.empty pid_cid_fid_inlier)"

text \<open>
  \<open>flagOutliersByTriAngleAndReprojErr\<close>, first loop. The angle between the rays of
  two cameras to the point of track \<open>pid\<close>, which the source computes from
  \<open>world_to_cam\<close> and \<open>xyz_vec\<close>, is the parameter \<open>angle pid cid1 cid2\<close>. The
  counters that are only printed are left out.
\<close>

fun max_angle_from ::
  "(int \<Rightarrow> int \<Rightarrow> dbl) \<Rightarrow> int pid_cid_fid \<Rightarrow> nat \<Rightarrow> int \<Rightarrow> track \<Rightarrow> real \<Rightarrow> error + real" where
  "max_angle_from angle inlier pid cid1 [] max_rays_angle = Inr max_rays_angle"
| "max_angle_from angle inlier pid cid1 ((cid2, fid2) # rest) max_rays_angle =
     (if cid2 \<le> cid1 then max_angle_from angle inlier pid cid1 rest max_rays_angle
      else
        case getMapValue inlier pid cid2 fid2 of
          Inl e \<Rightarrow> Inl e
        | Inr v \<Rightarrow>
            if v = 0 then max_angle_from angle inlier pid cid1 rest max_rays_angle
            else
              (case angle cid1 cid2 of
                 Finite curr_angle \<Rightarrow>
                   max_angle_from angle inlier pid cid1 rest (max max_rays_angle curr_angle)
               | _ \<Rightarrow> max_angle_from angle inlier pid cid1 rest max_rays_angle))"

fun max_angle ::
  "(int \<Rightarrow> int \<Rightarrow> dbl) \<Rightarrow> int pid_cid_fid \<Rightarrow> nat \<Rightarrow> track \<Rightarrow> track \<Rightarrow> real \<Rightarrow> error + real" where
  "max_angle angle inlier pid t [] max_rays_angle = Inr max_rays_angle"
| "max_angle angle inlier pid t ((cid1, fid1) # rest) max_rays_angle =
     (case getMapValue inlier pid cid1 fid1 of
        Inl e \<Rightarrow> Inl e
      | Inr v \<Rightarrow>
          if v = 0 then max_angle angle inlier pid t rest max_rays_angle
          else
            (case max_angle_from angle inlier pid cid1 t max_rays_angle of
               Inl e \<Rightarrow> Inl e
             | Inr m \<Rightarrow> max_angle angle inlier pid t rest m))"

fun flag_inliers :: "int pid_cid_fid \<Rightarrow> nat \<Rightarrow> track \<Rightarrow> error + int pid_cid_fid" where
  "flag_inliers inlier pid [] = Inr inlier"
| "flag_inliers inlier pid ((cid, fid) # rest) =
     (case getMapValue inlier pid cid fid of
        Inl e \<Rightarrow> Inl e
      | Inr v \<Rightarrow>
          if v = 0 then flag_inliers inlier pid rest
          else
            (case setMapValue inlier pid cid fid 0 of
               Inl e \<Rightarrow> Inl e
             | Inr inlier' \<Rightarrow> flag_inliers inlier' pid rest))"

fun flagByTriAngle ::
  "real \<Rightarrow> (nat \<Rightarrow> int \<Rightarrow> int \<Rightarrow> dbl) \<Rightarrow> nat \<Rightarrow> track list \<Rightarrow> int pid_cid_fid \<Rightarrow>
   error + int pid_cid_fid" where
  "flagByTriAngle refiner_min_angle angle pid [] inlier = Inr inlier"
| "flagByTriAngle refiner_min_angle angle pid (t # rest) inlier =
     (case max_angle (angle pid) inlier pid t t 0 of
        Inl e \<Rightarrow> Inl e
      | Inr max_rays_angle \<Rightarrow>
          if max_rays_angle \<ge> refiner_min_angle
          then flagByTriAngle refiner_min_angle angle (Suc pid) rest inlier
          else
            (case flag_inliers inlier pid t of
               Inl e \<Rightarrow> Inl e
             | Inr inlier' \<Rightarrow> flagByTriAngle refiner_min_angle angle (Suc pid) rest inlier'))"

text \<open>
  Second loop. \<open>size_t residual_index\<close> receives an \<open>int\<close>, which wraps modulo
  \<open>2 ^ 64\<close>, as does \<open>residual_index + 1\<close>. The norm of the two pixel residuals,
  \<open>Eigen::Vector2d(res_x, res_y).norm()\<close>, is the parameter \<open>vec_norm\<close>: Eigen computes
  it in doubles, with rounding and with overflow to Inf for large residuals. It is
  compared with \<open><=\<close>, which is false when the norm is NaN. \<open>norm2\<close> is the norm
  without rounding and overflow, which the examples use.
\<close>

definition to_size_t :: "int \<Rightarrow> nat" where
  "to_size_t i = nat (i mod 2 ^ 64)"

definition norm2 :: "dbl \<Rightarrow> dbl \<Rightarrow> dbl" where
  "norm2 a b =
     (if isnan a \<or> isnan b then NaN
      else case (a, b) of
             (Finite x, Finite y) \<Rightarrow> Finite (sqrt (x * x + y * y))
           | _ \<Rightarrow> PInf)"

fun dbl_le :: "dbl \<Rightarrow> real \<Rightarrow> bool" where
  "dbl_le (Finite x) m = (x \<le> m)"
| "dbl_le NInf m = True"
| "dbl_le _ m = False"

fun reproj_track ::
  "(dbl \<Rightarrow> dbl \<Rightarrow> dbl) \<Rightarrow> real \<Rightarrow> int pid_cid_fid \<Rightarrow> dbl list \<Rightarrow> nat \<Rightarrow> track \<Rightarrow>
   int pid_cid_fid \<Rightarrow> error + int pid_cid_fid" where
  "reproj_track vec_norm max_reprojection_error residual_index_tab residuals pid [] inlier =
     Inr inlier"
| "reproj_track vec_norm max_reprojection_error residual_index_tab residuals pid ((cid, fid) # rest)
     inlier =
     (case getMapValue inlier pid cid fid of
        Inl e \<Rightarrow> Inl e
      | Inr v \<Rightarrow>
          if v = 0
          then reproj_track vec_norm max_reprojection_error residual_index_tab residuals pid rest
                 inlier
          else
            (case getMapValue residual_index_tab pid cid fid of
               Inl e \<Rightarrow> Inl e
             | Inr i \<Rightarrow>
                 let residual_index = to_size_t i
                 in
                   if length residuals \<le> (residual_index + 1) mod 2 ^ 64
                   then Inl (Fatal ''Too few residuals.'')
                   else
                     let res_x = residuals ! residual_index;
                         res_y = residuals ! ((residual_index + 1) mod 2 ^ 64);
                         is_good = dbl_le (vec_norm res_x res_y) max_reprojection_error
                     in
                       (case (if \<not> is_good then setMapValue inlier pid cid fid 0
                              else Inr inlier) of
                          Inl e \<Rightarrow> Inl e
                        | Inr inlier' \<Rightarrow>
                            reproj_track vec_norm max_reprojection_error residual_index_tab
                              residuals pid rest inlier')))"

fun flagByReprojErr ::
  "(dbl \<Rightarrow> dbl \<Rightarrow> dbl) \<Rightarrow> real \<Rightarrow> int pid_cid_fid \<Rightarrow> dbl list \<Rightarrow> nat \<Rightarrow> track list \<Rightarrow>
   int pid_cid_fid \<Rightarrow> error + int pid_cid_fid" where
  "flagByReprojErr vec_norm max_reprojection_error residual_index_tab residuals pid [] inlier =
     Inr inlier"
| "flagByReprojErr vec_norm max_reprojection_error residual_index_tab residuals pid (t # rest) inlier =
     (case reproj_track vec_norm max_reprojection_error residual_index_tab residuals pid t inlier of
        Inl e \<Rightarrow> Inl e
      | Inr inlier' \<Rightarrow>
          flagByReprojErr vec_norm max_reprojection_error residual_index_tab residuals (Suc pid) rest
            inlier')"

definition flagOutliersByTriAngleAndReprojErr ::
  "(dbl \<Rightarrow> dbl \<Rightarrow> dbl) \<Rightarrow> real \<Rightarrow> real \<Rightarrow> track list \<Rightarrow> (nat \<Rightarrow> int \<Rightarrow> int \<Rightarrow> dbl) \<Rightarrow>
   int pid_cid_fid \<Rightarrow> dbl list \<Rightarrow> int pid_cid_fid \<Rightarrow> error + int pid_cid_fid" where
  "flagOutliersByTriAngleAndReprojErr vec_norm refiner_min_angle max_reprojection_error
     pid_to_cid_fid angle pid_cid_fid_to_residual_index residuals pid_cid_fid_inlier =
     (case flagByTriAngle refiner_min_angle angle 0 pid_to_cid_fid pid_cid_fid_inlier of
        Inl e \<Rightarrow> Inl e
      | Inr inlier' \<Rightarrow>
          flagByReprojErr vec_norm max_reprojection_error pid_cid_fid_to_residual_index residuals 0
            pid_to_cid_fid inlier')"

section \<open>The optimization passes on the inlier mask\<close>

text \<open>
  One pass of the loop of \<open>main\<close>, as far as the mask goes: the tracks are
  triangulated, the problem is formed and solved, and the outliers are flagged. What
  the solver and the geometry contribute is the environment of the pass: the rays and
  the triangulation, the norm of a pair of residuals, and, as functions of the mask
  and the points after triangulation, the angles, the table of residual indices and
  the residuals.
  \<open>xyz_vec\<close> is a fresh vector in every pass. The stages between the two calls do
  not write the mask; where one of them aborts, the run ends there and has no later
  mask.
\<close>

record 'ray pass_env =
  env_ray :: "int \<Rightarrow> int \<Rightarrow> 'ray"
  env_tri :: "'ray list \<Rightarrow> xyz"
  env_xyz_dflt :: xyz
  env_norm :: "dbl \<Rightarrow> dbl \<Rightarrow> dbl"
  env_angle :: "int pid_cid_fid \<Rightarrow> xyz list \<Rightarrow> nat \<Rightarrow> int \<Rightarrow> int \<Rightarrow> dbl"
  env_residual_index :: "int pid_cid_fid \<Rightarrow> xyz list \<Rightarrow> int pid_cid_fid"
  env_residuals :: "int pid_cid_fid \<Rightarrow> xyz list \<Rightarrow> dbl list"

definition optimization_pass ::
  "real \<Rightarrow> real \<Rightarrow> track list \<Rightarrow> 'ray pass_env \<Rightarrow> int pid_cid_fid \<Rightarrow> error + int pid_cid_fid" where
  "optimization_pass refiner_min_angle max_reprojection_error pid_to_cid_fid env inlier =
     (case multiViewTriangulation (env_ray env) (env_tri env) (env_xyz_dflt env)
             pid_to_cid_fid inlier [] of
        Inl e \<Rightarrow> Inl e
      | Inr (inlier1, xyz_vec) \<Rightarrow>
          flagOutliersByTriAngleAndReprojErr (env_norm env) refiner_min_angle
            max_reprojection_error pid_to_cid_fid (env_angle env inlier1 xyz_vec)
            (env_residual_index env inlier1 xyz_vec) (env_residuals env inlier1 xyz_vec)
            inlier1)"

fun run_passes ::
  "real \<Rightarrow> real \<Rightarrow> track list \<Rightarrow> 'ray pass_env list \<Rightarrow> int pid_cid_fid \<Rightarrow>
   error + int pid_cid_fid" where
  "run_passes refiner_min_angle max_reprojection_error pid_to_cid_fid [] inlier = Inr inlier"
| "run_passes refiner_min_angle max_reprojection_error pid_to_cid_fid (env # envs) inlier =
     (case optimization_pass refiner_min_angle max_reprojection_error pid_to_cid_fid env inlier of
        Inl e \<Rightarrow> Inl e
      | Inr inlier' \<Rightarrow>
          run_passes refiner_min_angle max_reprojection_error pid_to_cid_fid envs inlier')"

section \<open>Copying the optimized intrinsics back\<close>

text \<open>
  The solver works on the arrays \<open>focal_lengths\<close>, \<open>optical_centers\<close> and
  \<open>distortions\<close>, one entry per sensor. After the solve of a pass the driver copies
  them into \<open>cam_params\<close>, and puts the reference sensor back to \<open>orig_cam_params\<close>,
  the copy of \<open>cam_params\<close> it made before the loop, when
  \<open>FLAGS_nav_cam_intrinsics_to_float\<close> is empty or \<open>FLAGS_num_iterations\<close> is 0.
\<close>

record intrinsics_arrays =
  focal_lengths :: "real list"
  optical_centers :: "(real \<times> real) list"
  distortions :: "real list list"

definition copy_back_one ::
  "intrinsics_arrays \<Rightarrow> nat \<Rightarrow> CameraParameters list \<Rightarrow> CameraParameters list" where
  "copy_back_one arrs it cam_params =
     cam_params[it :=
       SetDistortion (distortions arrs ! it)
         (SetOpticalOffset (optical_centers arrs ! it)
            (SetFocalLength (focal_lengths arrs ! it, focal_lengths arrs ! it)
               (cam_params ! it)))]"

definition copy_back_intrinsics ::
  "string \<Rightarrow> int \<Rightarrow> nat \<Rightarrow> CameraParameters list \<Rightarrow> intrinsics_arrays \<Rightarrow>
   CameraParameters list \<Rightarrow> CameraParameters list" where
  "copy_back_intrinsics nav_cam_intrinsics_to_float num_iterations ref_cam_type orig_cam_params
     arrs cam_params =
     (let cam_params1 = fold (copy_back_one arrs) [0..<length cam_params] cam_params
      in
        if nav_cam_intrinsics_to_float = [] \<or> num_iterations = 0
        then cam_params1[ref_cam_type := orig_cam_params ! ref_cam_type]
        else cam_params1)"

text \<open>
  The passes, as far as the intrinsics go. \<open>solve pass\<close> is what the solver makes of
  the arrays in that pass. The state is the arrays and \<open>cam_params\<close>;
  \<open>orig_cam_params\<close> is never assigned after its initialization.
\<close>

fun intrinsics_passes ::
  "string \<Rightarrow> int \<Rightarrow> nat \<Rightarrow> CameraParameters list \<Rightarrow> (nat \<Rightarrow> intrinsics_arrays \<Rightarrow> intrinsics_arrays) \<Rightarrow>
   nat \<Rightarrow> intrinsics_arrays \<times> CameraParameters list \<Rightarrow>
   intrinsics_arrays \<times> CameraParameters list" where
  "intrinsics_passes to_float num_iterations ref_cam_type orig_cam_params solve 0 st = st"
| "intrinsics_passes to_float num_iterations ref_cam_type orig_cam_params solve (Suc n) st =
     (case intrinsics_passes to_float num_iterations ref_cam_type orig_cam_params solve n st of
        (arrs, cam_params) \<Rightarrow>
          let arrs' = solve n arrs
          in (arrs',
              copy_back_intrinsics to_float num_iterations ref_cam_type orig_cam_params
                arrs' cam_params))"

section \<open>Command-line flags and their validation\<close>

text \<open>
  The gflags of tools/rig\_calibrator.cc that \<open>parameterValidation\<close> and the order of
  the stages of \<open>main\<close> depend on. The file sets \<open>HAVE_ASTROBEE\<close> to 0, so the
  branches under \<open>#if HAVE_ASTROBEE\<close> are not compiled and those under
  \<open>#if !HAVE_ASTROBEE\<close> are. The tests run in the order of the source and the first
  that holds aborts.
\<close>

record flags =
  FLAGS_robust_threshold :: real
  FLAGS_bracket_len :: real
  FLAGS_num_overlaps :: int
  FLAGS_timestamp_offsets_max_change :: real
  FLAGS_refiner_min_angle :: real
  FLAGS_depth_tri_weight :: real
  FLAGS_mesh_tri_weight :: real
  FLAGS_depth_mesh_weight :: real
  FLAGS_nav_cam_num_exclude_boundary_pixels :: int
  FLAGS_registration :: bool
  FLAGS_xyz_file :: string
  FLAGS_hugin_file :: string
  FLAGS_float_scale :: bool
  FLAGS_affine_depth_to_image :: bool
  FLAGS_float_nonref_cameras :: bool
  FLAGS_no_extrinsics :: bool
  FLAGS_float_timestamp_offsets :: bool
  FLAGS_save_images_and_depth_clouds :: bool
  FLAGS_out_dir :: string
  FLAGS_save_matches :: bool
  FLAGS_rig_config :: string
  FLAGS_image_list :: string
  FLAGS_mesh :: string
  FLAGS_sci_cam_timestamps :: string
  FLAGS_out_texture_dir :: string
  FLAGS_refiner_num_passes :: int
  FLAGS_extrinsics_to_float :: string

definition parameterValidation :: "flags \<Rightarrow> error + unit" where
  "parameterValidation F =
     (if FLAGS_robust_threshold F \<le> 0
      then Inl (Fatal ''The robust threshold must be positive.'')
      else if FLAGS_bracket_len F \<le> 0
      then Inl (Fatal ''Bracket length must be positive.'')
      else if FLAGS_num_overlaps F < 1
      then Inl (Fatal ''Number of overlaps must be positive.'')
      else if FLAGS_timestamp_offsets_max_change F < 0
      then Inl (Fatal ''The timestamp offsets must be non-negative.'')
      else if FLAGS_refiner_min_angle F \<le> 0
      then Inl (Fatal ''The min triangulation angle must be positive.'')
      else if FLAGS_depth_tri_weight F < 0
      then Inl (Fatal ''The depth weight must non-negative.'')
      else if FLAGS_mesh_tri_weight F < 0
      then Inl (Fatal ''The mesh weight must non-negative.'')
      else if FLAGS_depth_mesh_weight F < 0
      then Inl (Fatal ''The depth mesh weight must non-negative.'')
      else if FLAGS_nav_cam_num_exclude_boundary_pixels F < 0
      then Inl (Fatal ''Must have a non-negative value for --nav_cam_num_exclude_boundary_pixels.'')
      else if FLAGS_registration F \<and> (FLAGS_xyz_file F = [] \<or> FLAGS_hugin_file F = [])
      then Inl (Fatal ''In order to register the map, the hugin and xyz file must be specified.'')
      else if FLAGS_float_scale F \<and> FLAGS_affine_depth_to_image F
      then Inl (Fatal ''The options --float_scale and --affine_depth_to_image should not be used together. If the latter is used, the scale is always floated.'')
      else if FLAGS_float_nonref_cameras F \<and> \<not> FLAGS_no_extrinsics F
      then Inl (Fatal ''The option --float_nonref_cameras must be used only with --no_extrinsics.'')
      else if FLAGS_no_extrinsics F \<and> FLAGS_float_timestamp_offsets F
      then Inl (Fatal ''Cannot float timestamps with option --no_extrinsics.'')
      else if FLAGS_save_images_and_depth_clouds F \<and> FLAGS_out_dir F = []
      then Inl (Fatal ''Cannot save images and clouds if no output directory was provided.'')
      else if FLAGS_save_matches F \<and> FLAGS_out_dir F = []
      then Inl (Fatal ''Cannot save matches if no output directory was provided.'')
      else if FLAGS_rig_config F = []
      then Inl (Fatal ''Must specify the initial rig configuration via --rig_config.'')
      else if FLAGS_image_list F = []
      then Inl (Fatal ''Must specify the image list via --image_list.'')
      else Inr ())"

section \<open>The order of the stages of main\<close>

text \<open>
  The calls and blocks of \<open>main\<close> in the order in which it runs them, as a list of
  events: an event says that the stage was started. A stage inside the loop over the
  passes carries the number of its pass. The two loops of
  \<open>flagOutliersByTriAngleAndReprojErr\<close> are two events.

  The lists \<open>events_before_passes\<close>, \<open>pass_events\<close> and \<open>events_after_passes\<close>
  are what \<open>main\<close> sets out to do. Its own two \<open>LOG(FATAL)\<close> that depend on the
  flags stand in them as \<open>Aborted\<close>. Every stage can also abort on its data
  (\<open>LOG(FATAL)\<close> in \<open>calc_world_to_cam_trans\<close>, \<open>getMapValue\<close>, \<open>depthValue\<close>,
  "Too few residuals", the size tests of \<open>main\<close>, and so on); whether it does is
  given with the run, and \<open>run_stages\<close> ends the list at the first abort. A stage
  that does not abort is taken to return.
\<close>

datatype stage =
    InitGoogleLogging
  | ParseCommandLineFlags
  | ParameterValidation
  | ReadRigConfig
  | ReadSciCamTimestamps
  | LoadMeshBuildTree
  | ReadImageAndDepthData
  | RefPosesToArrays
  | ParseIntrinsicsToFloat
  | ParseExtrinsicsToFloat
  | ParametersToArrays
  | LookupImagesAndBrackets
  | AdjustImageSize
  | SortCams
  | InitialWorldToCam
  | GenImageAndDepthFileNames
  | SaveImagesAndDepthClouds
  | DetectMatchFeatures
  | SetUpBlockSizes
  | FlagOutlierByExclusionDist
  | PutBackScale
  | SaveInlinerMatchPairs
  | FinalWorldToCam
  | MeshProjectCameras
  | WriteImageList
  | WriteRigConfig

datatype pass_step =
    CalcWorldToCam
  | MultiViewTriangulation
  | MeshTriangulations
  | FormProblem
  | EvalResidualsBefore
  | Solve
  | CopyBack
  | EvalResidualsAfter
  | CalcWorldToCamAgain
  | FlagByTriAngle
  | FlagByReprojErr

datatype event = Stage stage | InPass nat pass_step | Aborted error

fun is_abort :: "event \<Rightarrow> bool" where
  "is_abort (Aborted e) = True"
| "is_abort _ = False"

text \<open>
  What a run adds to the flags: the camera names that \<open>readRigConfig\<close> has read, the
  function \<open>parse_extrinsics_to_float\<close>, which is defined outside the files modelled
  here and gives the set of names to float, and for every stage whether it aborts on
  the data of this run, and with which error.
\<close>

record run_data =
  cam_names :: "string list"
  parse_extrinsics_to_float :: "string list \<Rightarrow> string \<Rightarrow> string \<Rightarrow> string \<Rightarrow> string set"
  stage_abort :: "event \<Rightarrow> error option"

definition depth_to_image_name :: string where
  "depth_to_image_name = ''depth_to_image''"

definition pass_events :: "flags \<Rightarrow> nat \<Rightarrow> event list" where
  "pass_events F pass =
     [InPass pass CalcWorldToCam, InPass pass MultiViewTriangulation] @
     (if FLAGS_mesh F \<noteq> [] then [InPass pass MeshTriangulations] else []) @
     [InPass pass FormProblem, InPass pass EvalResidualsBefore, InPass pass Solve,
      InPass pass CopyBack, InPass pass EvalResidualsAfter, InPass pass CalcWorldToCamAgain,
      InPass pass FlagByTriAngle, InPass pass FlagByReprojErr]"

text \<open>
  After the validation \<open>rig_config\<close> is not empty, so the rig configuration is read
  with \<open>readRigConfig\<close>, which leaves \<open>ref_cam_type\<close> at 0 or aborts. The test after
  \<open>parse_extrinsics_to_float\<close> is the one of \<open>main\<close> on \<open>float_scale\<close>; the name of the
  reference camera that \<open>main\<close> hands to \<open>parse_extrinsics_to_float\<close> is
  \<open>cam_names[ref_cam_type]\<close>, of which the source does not test the range.
\<close>

definition events_before_passes :: "flags \<Rightarrow> run_data \<Rightarrow> event list" where
  "events_before_passes F D =
     [Stage ReadRigConfig] @
     (if FLAGS_sci_cam_timestamps F \<noteq> [] then [Stage ReadSciCamTimestamps] else []) @
     (if FLAGS_mesh F \<noteq> [] then [Stage LoadMeshBuildTree] else []) @
     (if FLAGS_image_list F \<noteq> [] then [Stage ReadImageAndDepthData] else []) @
     [Stage RefPosesToArrays, Stage ParseIntrinsicsToFloat, Stage ParseExtrinsicsToFloat] @
     (if \<not> FLAGS_affine_depth_to_image F \<and> FLAGS_float_scale F \<and>
         depth_to_image_name \<notin>
           parse_extrinsics_to_float D (cam_names D) (cam_names D ! 0) depth_to_image_name
             (FLAGS_extrinsics_to_float F)
      then [Aborted (Fatal ''Cannot float the scale of depth_to_image_transform unless this this is allowed as part of --extrinsics_to_float.'')]
      else []) @
     [Stage ParametersToArrays, Stage LookupImagesAndBrackets, Stage AdjustImageSize,
      Stage SortCams, Stage InitialWorldToCam] @
     (if FLAGS_save_images_and_depth_clouds F \<or> FLAGS_save_matches F
      then [Stage GenImageAndDepthFileNames] else []) @
     (if FLAGS_save_images_and_depth_clouds F then [Stage SaveImagesAndDepthClouds] else []) @
     [Stage DetectMatchFeatures, Stage SetUpBlockSizes, Stage FlagOutlierByExclusionDist]"

definition events_after_passes :: "flags \<Rightarrow> event list" where
  "events_after_passes F =
     [Stage PutBackScale] @
     (if FLAGS_save_matches F then [Stage SaveInlinerMatchPairs] else []) @
     [Stage FinalWorldToCam] @
     (if FLAGS_out_texture_dir F \<noteq> [] \<and> FLAGS_mesh F = []
      then [Aborted (Fatal ''Cannot project camera images onto a mesh if a mesh was not provided.'')]
      else
        (if FLAGS_out_texture_dir F \<noteq> [] then [Stage MeshProjectCameras] else []) @
        (if FLAGS_save_images_and_depth_clouds F
         then [Stage WriteImageList, Stage WriteRigConfig] else []))"

text \<open>
  The stages that are started, out of those set out: up to the first that aborts, be
  it an abort of \<open>main\<close> itself or one inside a stage, which is started and then
  followed by \<open>Aborted\<close>.
\<close>

fun run_stages :: "(event \<Rightarrow> error option) \<Rightarrow> event list \<Rightarrow> event list" where
  "run_stages ab [] = []"
| "run_stages ab (ev # rest) =
     (if is_abort ev then [ev]
      else case ab ev of
             Some e \<Rightarrow> [ev, Aborted e]
           | None \<Rightarrow> ev # run_stages ab rest)"

definition main_events :: "flags \<Rightarrow> run_data \<Rightarrow> event list" where
  "main_events F D =
     [Stage InitGoogleLogging, Stage ParseCommandLineFlags, Stage ParameterValidation] @
     (case parameterValidation F of
        Inl e \<Rightarrow> [Aborted e]
      | Inr _ \<Rightarrow>
          run_stages (stage_abort D)
            (events_before_passes F D @
             concat (map (pass_events F) [0..<nat (FLAGS_refiner_num_passes F)]) @
             events_after_passes F))"


section \<open>Exporting the inliers (rig\_calibrator/src/interest\_point.cc, writeNvm)\<close>

text \<open>
  Modelled from the spec: \<open>GetFocalLength\<close> and \<open>GetOpticalOffset\<close> of
  \<open>camera::CameraParameters\<close>, declared in a header outside the files modelled here. The camera model
  of the spec has one focal length; the driver's comment at the call says that
  \<open>GetFocalLength\<close> averages the two stored values.
\<close>

definition GetFocalLength :: "CameraParameters \<Rightarrow> real" where
  "GetFocalLength p = (fst (focal_length p) + snd (focal_length p)) / 2"

definition GetOpticalOffset :: "CameraParameters \<Rightarrow> real \<times> real" where
  "GetOpticalOffset p = optical_offset p"

text \<open>
  \<open>nvm_cid_fid[cid] = v\<close> on a \<open>std::map<int, int>\<close> kept as the list of its pairs
  in increasing order of the key; its \<open>size()\<close> is the length of the list.
\<close>

fun map_assign :: "int \<Rightarrow> 'v \<Rightarrow> (int \<times> 'v) list \<Rightarrow> (int \<times> 'v) list" where
  "map_assign k v [] = [(k, v)]"
| "map_assign k v ((k', v') # rest) =
     (if k = k' then (k, v) # rest
      else if k < k' then (k, v) # (k', v') # rest
      else (k', v') # map_assign k v rest)"

text \<open>
  The loop over one track. Its state is the keypoint matrices (a list of columns per
  camera), the counters \<open>fid_count\<close> and the map \<open>nvm_cid_fid\<close> of the track.
  \<open>cid_to_keypoint_map.at(cid)\<close> throws when \<open>cid\<close> is out of range; the other
  vectors are indexed without a test, and a column index beyond the matrix leaves the
  matrix as it is in the model.
\<close>

fun nvm_track ::
  "CameraParameters list \<Rightarrow> cameraImage list \<Rightarrow> (real \<times> real) list list \<Rightarrow> int pid_cid_fid \<Rightarrow>
   nat \<Rightarrow> track \<Rightarrow> (real \<times> real) list list \<times> int list \<times> track \<Rightarrow>
   error + ((real \<times> real) list list \<times> int list \<times> track)" where
  "nvm_track cam_params cams keypoint_vec inlier pid [] st = Inr st"
| "nvm_track cam_params cams keypoint_vec inlier pid ((cid, fid) # rest)
     (keypoint_map, fid_count, nvm_cid_fid) =
     (case getMapValue inlier pid cid fid of
        Inl e \<Rightarrow> Inl e
      | Inr v \<Rightarrow>
          if v = 0
          then nvm_track cam_params cams keypoint_vec inlier pid rest
                 (keypoint_map, fid_count, nvm_cid_fid)
          else
            let kp = keypoint_vec ! nat cid ! nat fid;
                off = GetOpticalOffset (cam_params ! nat (camera_type (cams ! nat cid)));
                dist_ip = (fst kp - fst off, snd kp - snd off)
            in
              if cid < 0 \<or> length keypoint_map \<le> nat cid
              then Inl (Exception ''vector::at'')
              else
                nvm_track cam_params cams keypoint_vec inlier pid rest
                  (keypoint_map[nat cid :=
                     (keypoint_map ! nat cid)[nat (fid_count ! nat cid) := dist_ip]],
                   fid_count[nat cid := fid_count ! nat cid + 1],
                   map_assign cid (fid_count ! nat cid) nvm_cid_fid))"

text \<open>
  The loop over the tracks: each track starts with an empty \<open>nvm_cid_fid\<close>, and is
  pushed, with its point, under the test \<open>nvm_cid_fid.size() > 2\<close>.
\<close>

fun nvm_tracks ::
  "CameraParameters list \<Rightarrow> cameraImage list \<Rightarrow> (real \<times> real) list list \<Rightarrow> int pid_cid_fid \<Rightarrow>
   xyz list \<Rightarrow> nat \<Rightarrow> track list \<Rightarrow>
   (real \<times> real) list list \<times> int list \<times> track list \<times> xyz list \<Rightarrow>
   error + ((real \<times> real) list list \<times> int list \<times> track list \<times> xyz list)" where
  "nvm_tracks cam_params cams keypoint_vec inlier xyz_vec pid [] st = Inr st"
| "nvm_tracks cam_params cams keypoint_vec inlier xyz_vec pid (t # rest)
     (keypoint_map, fid_count, nvm_pid_to_cid_fid, nvm_pid_to_xyz) =
     (case nvm_track cam_params cams keypoint_vec inlier pid t (keypoint_map, fid_count, []) of
        Inl e \<Rightarrow> Inl e
      | Inr (keypoint_map', fid_count', nvm_cid_fid) \<Rightarrow>
          if length nvm_cid_fid > 2
          then nvm_tracks cam_params cams keypoint_vec inlier xyz_vec (Suc pid) rest
                 (keypoint_map', fid_count', nvm_pid_to_cid_fid @ [nvm_cid_fid],
                  nvm_pid_to_xyz @ [xyz_vec ! pid])
          else nvm_tracks cam_params cams keypoint_vec inlier xyz_vec (Suc pid) rest
                 (keypoint_map', fid_count', nvm_pid_to_cid_fid, nvm_pid_to_xyz))"

text \<open>
  What \<open>writeNvm\<close> hands to \<open>WriteNVM\<close>, which writes the file from it. \<open>kp_dflt\<close>
  stands for the content of a matrix column that was never assigned.
\<close>

record 'aff nvm_args =
  cid_to_keypoint_map :: "(real \<times> real) list list"
  cid_to_filename :: "string list"
  nvm_focal_lengths :: "real list"
  nvm_pid_to_cid_fid :: "track list"
  nvm_pid_to_xyz :: "xyz list"
  cid_to_cam_t_global :: "'aff list"

definition writeNvm ::
  "real \<times> real \<Rightarrow> CameraParameters list \<Rightarrow> cameraImage list \<Rightarrow> 'aff list \<Rightarrow>
   (real \<times> real) list list \<Rightarrow> track list \<Rightarrow> int pid_cid_fid \<Rightarrow> xyz list \<Rightarrow>
   error + 'aff nvm_args" where
  "writeNvm kp_dflt cam_params cams world_to_cam keypoint_vec pid_to_cid_fid pid_cid_fid_inlier
     xyz_vec =
     (if length world_to_cam \<noteq> length cams
      then Inl (Fatal ''Expecting as many world-to-camera transforms as cameras.'')
      else if length world_to_cam \<noteq> length keypoint_vec
      then Inl (Fatal ''Expecting as many sets of keypoints as cameras.'')
      else if length pid_to_cid_fid \<noteq> length pid_cid_fid_inlier
      then Inl (Fatal ''Expecting as many inlier flags as there are tracks.'')
      else if length pid_to_cid_fid \<noteq> length xyz_vec
      then Inl (Fatal ''Expecting as many tracks as there are triangulated points.'')
      else
        case nvm_tracks cam_params cams keypoint_vec pid_cid_fid_inlier xyz_vec 0 pid_to_cid_fid
               (map (\<lambda>kps. replicate (length kps) kp_dflt) keypoint_vec,
                replicate (length keypoint_vec) 0, [], []) of
          Inl e \<Rightarrow> Inl e
        | Inr (keypoint_map, fid_count, tracks, points) \<Rightarrow>
            Inr \<lparr>cid_to_keypoint_map =
                   map (\<lambda>cid. resize (nat (fid_count ! cid)) kp_dflt (keypoint_map ! cid))
                     [0..<length cams],
                 cid_to_filename = map image_name cams,
                 nvm_focal_lengths =
                   map (\<lambda>c. GetFocalLength (cam_params ! nat (camera_type c))) cams,
                 nvm_pid_to_cid_fid = tracks,
                 nvm_pid_to_xyz = points,
                 cid_to_cam_t_global = world_to_cam\<rparr>)"

text \<open>The number of inlier observations of a track, as the loop above counts them.\<close>

definition num_inliers :: "int pid_cid_fid \<Rightarrow> nat \<Rightarrow> track \<Rightarrow> nat" where
  "num_inliers inlier pid t =
     length (filter (\<lambda>(cid, fid). entry inlier pid cid fid \<noteq> Some 0) t)"

text \<open>
  The values the flags have when the command line gives none (the defaults of their
  \<open>DEFINE_\<close> lines), and a command line that names a rig configuration and an image
  list and leaves the rest alone: it passes the validation and runs two passes.
\<close>

definition default_flags :: flags where
  "default_flags =
     \<lparr>FLAGS_robust_threshold = 3,
      FLAGS_bracket_len = 6 / 10,
      FLAGS_num_overlaps = 10,
      FLAGS_timestamp_offsets_max_change = 1,
      FLAGS_refiner_min_angle = 1 / 2,
      FLAGS_depth_tri_weight = 1000,
      FLAGS_mesh_tri_weight = 0,
      FLAGS_depth_mesh_weight = 0,
      FLAGS_nav_cam_num_exclude_boundary_pixels = 0,
      FLAGS_registration = False,
      FLAGS_xyz_file = [],
      FLAGS_hugin_file = [],
      FLAGS_float_scale = False,
      FLAGS_affine_depth_to_image = False,
      FLAGS_float_nonref_cameras = False,
      FLAGS_no_extrinsics = False,
      FLAGS_float_timestamp_offsets = False,
      FLAGS_save_images_and_depth_clouds = False,
      FLAGS_out_dir = [],
      FLAGS_save_matches = False,
      FLAGS_rig_config = [],
      FLAGS_image_list = [],
      FLAGS_mesh = [],
      FLAGS_sci_cam_timestamps = [],
      FLAGS_out_texture_dir = [],
      FLAGS_refiner_num_passes = 2,
      FLAGS_extrinsics_to_float = ''haz_cam sci_cam depth_to_image''\<rparr>"

definition two_pass_flags :: flags where
  "two_pass_flags = default_flags\<lparr>FLAGS_rig_config := ''rig.txt'', FLAGS_image_list := ''list.txt''\<rparr>"

text \<open>
  A run with three cameras in which no stage aborts and the names to float are those
  of the default of \<open>--extrinsics_to_float\<close>, and the same run with its data such
  that the interpolation of the poses after the second solve aborts.
\<close>

definition example_run :: run_data where
  "example_run =
     \<lparr>cam_names = [''nav_cam'', ''haz_cam'', ''sci_cam''],
      parse_extrinsics_to_float =
        (\<lambda>names ref_name depth_name flag. {''haz_cam'', ''sci_cam'', ''depth_to_image''}),
      stage_abort = (\<lambda>ev. None)\<rparr>"


text \<open>
  The run without abort in a stage, with \<open>--extrinsics_to_float\<close> naming the two
  cameras only.
\<close>

definition example_run_fixed_depth :: run_data where
  "example_run_fixed_depth =
     example_run\<lparr>parse_extrinsics_to_float :=
       (\<lambda>names ref_name depth_name flag. {''haz_cam'', ''sci_cam''})\<rparr>"

text \<open>
  Two sensors for the examples, the arrays the driver fills from them, and a solver
  that moves every focal length by one in each pass.
\<close>

definition example_cam0 :: CameraParameters where
  "example_cam0 = \<lparr>focal_length = (600, 610), optical_offset = (320, 240), distortion = [1],
           distorted_size = (640, 480)\<rparr>"
definition example_cam1 :: CameraParameters where
  "example_cam1 = \<lparr>focal_length = (200, 202), optical_offset = (100, 80), distortion = [0, 0, 0, 0],
           distorted_size = (200, 160)\<rparr>"
definition example_arrays :: intrinsics_arrays where
  "example_arrays = \<lparr>focal_lengths = [605, 201], optical_centers = [(320, 240), (100, 80)],
                distortions = [[1], [0, 0, 0, 0]]\<rparr>"
definition example_solve :: "nat \<Rightarrow> intrinsics_arrays \<Rightarrow> intrinsics_arrays" where
  "example_solve pass arrs = arrs\<lparr>focal_lengths := map (\<lambda>f. f + 1) (focal_lengths arrs)\<rparr>"

text \<open>
  Three acquisitions of the reference sensor with their keypoints, and two tracks: the
  first seen by two acquisitions, the second by three. In \<open>example_inliers\<close> every
  observation is an inlier.
\<close>

definition example_cams :: "cameraImage list" where
  "example_cams =
     [\<lparr>camera_type = 0, image_name = ''nav/10.jpg''\<rparr>,
      \<lparr>camera_type = 0, image_name = ''nav/11.jpg''\<rparr>,
      \<lparr>camera_type = 0, image_name = ''nav/12.jpg''\<rparr>]"

definition example_keypoints :: "(real \<times> real) list list" where
  "example_keypoints = [[(10, 20), (30, 40)], [(11, 21), (31, 41)], [(12, 22)]]"

definition example_tracks :: "track list" where
  "example_tracks = [[(0, 0), (1, 0)], [(0, 1), (1, 1), (2, 0)]]"

definition example_inliers :: "int pid_cid_fid" where
  "example_inliers =
     [Map.empty(0 \<mapsto> Map.empty(0 \<mapsto> 1), 1 \<mapsto> Map.empty(0 \<mapsto> 1)),
      Map.empty(0 \<mapsto> Map.empty(1 \<mapsto> 1), 1 \<mapsto> Map.empty(1 \<mapsto> 1), 2 \<mapsto> Map.empty(0 \<mapsto> 1))]"

definition example_xyz :: "xyz list" where
  "example_xyz = [(Finite 1, Finite 2, Finite 3), (Finite 4, Finite 5, Finite 6)]"

text \<open>
  \<open>cleared_only m m'\<close>: the mask \<open>m'\<close> has the entries of \<open>m\<close>, each with its
  value in \<open>m\<close> or with 0.
\<close>

definition cleared_only :: "int pid_cid_fid \<Rightarrow> int pid_cid_fid \<Rightarrow> bool" where
  "cleared_only m m' \<longleftrightarrow>
     length m' = length m \<and>
     (\<forall>pid cid fid. entry m' pid cid fid = entry m pid cid fid \<or>
        (entry m pid cid fid \<noteq> None \<and> entry m' pid cid fid = Some 0))"

text \<open>
  An environment for the example tracks: every triangulation gives the point
  \<open>(1, 2, 3)\<close>, every angle is 10 degrees, and the residuals of the observation of
  the second track in the second acquisition are not numbers.
\<close>

definition example_env :: "unit pass_env" where
  "example_env =
     \<lparr>env_ray = (\<lambda>cid fid. ()),
      env_tri = (\<lambda>rays. (Finite 1, Finite 2, Finite 3)),
      env_xyz_dflt = (Finite 0, Finite 0, Finite 0),
      env_norm = norm2,
      env_angle = (\<lambda>inlier xyz_vec pid cid1 cid2. Finite 10),
      env_residual_index =
        (\<lambda>inlier xyz_vec. [Map.empty, Map.empty(0 \<mapsto> Map.empty(1 \<mapsto> 0), 1 \<mapsto> Map.empty(1 \<mapsto> 2))]),
      env_residuals = (\<lambda>inlier xyz_vec. [Finite 0, Finite 0, NaN, Finite 0])\<rparr>"

section \<open>Properties of the depth lookup\<close>

text \<open>
  C5. With \<open>col\<close> and \<open>row\<close> the rounded pixel coordinates: when
  \<open>0 \<le> col \<le> cols\<close> and \<open>0 \<le> row \<le> rows\<close>, \<open>depthValue\<close> returns and does not
  abort; it returns false, with the zero vector, when \<open>col = cols\<close> or \<open>row = rows\<close>,
  and when the stored value is the invalid measurement \<open>(0, 0, 0)\<close>. It aborts
  exactly when the cloud is not empty and \<open>col\<close> or \<open>row\<close> is negative or larger
  than the dimension; on the empty cloud it returns false.
\<close>

theorem depthValue_rounded_in_range:
  "(0 \<le> c_round (fst dist_ip) \<and> c_round (fst dist_ip) \<le> cols depth_cloud \<and>
    0 \<le> c_round (snd dist_ip) \<and> c_round (snd dist_ip) \<le> rows depth_cloud \<longrightarrow>
      (\<exists>r. depthValue depth_cloud dist_ip = Inr r) \<and>
      (c_round (fst dist_ip) = cols depth_cloud \<or> c_round (snd dist_ip) = rows depth_cloud \<longrightarrow>
         depthValue depth_cloud dist_ip = Inr (False, (0, 0, 0))) \<and>
      (mat_at depth_cloud (c_round (snd dist_ip)) (c_round (fst dist_ip)) = (0, 0, 0) \<longrightarrow>
         depthValue depth_cloud dist_ip = Inr (False, (0, 0, 0)))) \<and>
   ((\<exists>e. depthValue depth_cloud dist_ip = Inl e) \<longleftrightarrow>
      \<not> (cols depth_cloud = 0 \<and> rows depth_cloud = 0) \<and>
      (c_round (fst dist_ip) < 0 \<or> c_round (snd dist_ip) < 0 \<or>
       c_round (fst dist_ip) > cols depth_cloud \<or> c_round (snd dist_ip) > rows depth_cloud))"
  by (auto simp: depthValue_def Let_def simp del: split_paired_Ex)

text \<open>
  A cloud of two rows and two columns: the pixel \<open>(2, 1)\<close> lies on the bound
  \<open>col = cols\<close>, the pixel \<open>(1, 0)\<close> holds the invalid measurement, and the pixel
  \<open>(3, 0)\<close> is beyond the bound.
\<close>

theorem depthValue_rounded_in_range_witness:
  "depthValue \<lparr>rows = 2, cols = 2, data = [(1, 1, 1), (0, 0, 0), (2, 2, 2), (3, 3, 3)]\<rparr> (2, 1)
     = Inr (False, (0, 0, 0)) \<and>
   depthValue \<lparr>rows = 2, cols = 2, data = [(1, 1, 1), (0, 0, 0), (2, 2, 2), (3, 3, 3)]\<rparr> (1, 0)
     = Inr (False, (0, 0, 0)) \<and>
   depthValue \<lparr>rows = 2, cols = 2, data = [(1, 1, 1), (0, 0, 0), (2, 2, 2), (3, 3, 3)]\<rparr> (3, 0)
     = Inl (Fatal ''Out of range in depth cloud.'')"
  using depthValue_rounded_in_range
    [of "(2, 1)" "\<lparr>rows = 2, cols = 2, data = [(1, 1, 1), (0, 0, 0), (2, 2, 2), (3, 3, 3)]\<rparr>"]
    depthValue_rounded_in_range
    [of "(1, 0)" "\<lparr>rows = 2, cols = 2, data = [(1, 1, 1), (0, 0, 0), (2, 2, 2), (3, 3, 3)]\<rparr>"]
    depthValue_rounded_in_range
    [of "(3, 0)" "\<lparr>rows = 2, cols = 2, data = [(1, 1, 1), (0, 0, 0), (2, 2, 2), (3, 3, 3)]\<rparr>"]
  by (simp add: c_round_def mat_at_def depthValue_def)

section \<open>Properties of the pose interpolation\<close>

text \<open>
  C4. When the two reference time stamps differ, \<open>calc_world_to_cam_trans\<close> computes
  \<open>alpha = ((cam_stamp - beg_ref_stamp) - ref_to_cam_offset) / (end_ref_stamp - beg_ref_stamp)\<close>,
  the time stamps subtracted first; it aborts exactly when \<open>alpha < 0\<close> or
  \<open>alpha > 1\<close>, and otherwise returns the reference-to-camera transform applied to
  the interpolation at \<open>alpha\<close>. When the two time stamps are equal it returns the
  begin world-to-reference transform, whatever the end transform and the
  reference-to-camera transform are. The statement holds for every interpretation of
  the subtraction, the division and the order of the time stamps.
\<close>

theorem calc_world_to_cam_trans_alpha:
  fixes beg_ref_stamp :: "'t :: {minus, inverse, ord, zero, one}"
  shows
  "(beg_ref_stamp \<noteq> end_ref_stamp \<longrightarrow>
      calc_world_to_cam_trans a2r interp mul beg_t end_t r2c
        beg_ref_stamp end_ref_stamp ref_to_cam_offset cam_stamp =
      (if ((cam_stamp - beg_ref_stamp) - ref_to_cam_offset) / (end_ref_stamp - beg_ref_stamp) < 0 \<or>
          ((cam_stamp - beg_ref_stamp) - ref_to_cam_offset) / (end_ref_stamp - beg_ref_stamp) > 1
       then Inl (Fatal ''Out of bounds in interpolation.'')
       else Inr (mul (a2r r2c)
                   (interp (((cam_stamp - beg_ref_stamp) - ref_to_cam_offset)
                              / (end_ref_stamp - beg_ref_stamp))
                      (a2r beg_t) (a2r end_t))))) \<and>
   (beg_ref_stamp = end_ref_stamp \<longrightarrow>
      (\<forall>end_t' r2c'.
         calc_world_to_cam_trans a2r interp mul beg_t end_t' r2c'
           beg_ref_stamp end_ref_stamp ref_to_cam_offset cam_stamp = Inr (a2r beg_t)))"
  by (simp add: calc_world_to_cam_trans_def Let_def)

text \<open>
  On real time stamps, with numbers for transforms: between the stamps 10 and 12 and
  with the offset 1/2, the camera stamp 23/2 gives \<open>alpha = 1/2\<close>, the camera stamp
  13 gives \<open>alpha = 5/4\<close> and aborts, and equal stamps return the begin transform.
\<close>

theorem calc_world_to_cam_trans_alpha_witness:
  "calc_world_to_cam_trans (\<lambda>x. x) (\<lambda>a x y. (1 - a) * x + a * y) (\<lambda>x y. x + y)
     (0 :: real) 4 10 (10 :: real) 12 (1 / 2) (23 / 2) = Inr 12 \<and>
   calc_world_to_cam_trans (\<lambda>x. x) (\<lambda>a x y. (1 - a) * x + a * y) (\<lambda>x y. x + y)
     (0 :: real) 4 10 (10 :: real) 12 (1 / 2) 13 = Inl (Fatal ''Out of bounds in interpolation.'') \<and>
   calc_world_to_cam_trans (\<lambda>x. x) (\<lambda>a x y. (1 - a) * x + a * y) (\<lambda>x y. x + y)
     (0 :: real) 4 10 (10 :: real) 10 (1 / 2) 13 = Inr 0"
  using calc_world_to_cam_trans_alpha
    [of "10 :: real" 12 "\<lambda>x. x" "\<lambda>a x y. (1 - a) * x + a * y" "\<lambda>x y. x + y" "0 :: real" 4 10
       "1 / 2" "23 / 2"]
    calc_world_to_cam_trans_alpha
    [of "10 :: real" 12 "\<lambda>x. x" "\<lambda>a x y. (1 - a) * x + a * y" "\<lambda>x y. x + y" "0 :: real" 4 10
       "1 / 2" 13]
    calc_world_to_cam_trans_alpha
    [of "10 :: real" 10 "\<lambda>x. x" "\<lambda>a x y. (1 - a) * x + a * y" "\<lambda>x y. x + y" "0 :: real" 4 10
       "1 / 2" 13]
  by simp

section \<open>Properties of the validation of the flags\<close>

text \<open>
  C8. When \<open>float_scale\<close> comes with \<open>affine_depth_to_image\<close>, or
  \<open>float_nonref_cameras\<close> without \<open>no_extrinsics\<close>, or \<open>float_timestamp_offsets\<close>
  with \<open>no_extrinsics\<close>, \<open>parameterValidation\<close> aborts, and \<open>main\<close> has by then
  only initialized the logging and parsed the command line: nothing is read, matched
  or optimized, whatever the data of the run.
\<close>

theorem parameterValidation_impossible_flags:
  assumes "(FLAGS_float_scale F \<and> FLAGS_affine_depth_to_image F) \<or>
           (FLAGS_float_nonref_cameras F \<and> \<not> FLAGS_no_extrinsics F) \<or>
           (FLAGS_float_timestamp_offsets F \<and> FLAGS_no_extrinsics F)"
  shows "\<exists>e. parameterValidation F = Inl e \<and>
             main_events F D =
               [Stage InitGoogleLogging, Stage ParseCommandLineFlags, Stage ParameterValidation,
                Aborted e]"
proof -
  from assms have "\<exists>e. parameterValidation F = Inl e"
    unfolding parameterValidation_def by (auto split: if_splits)
  then show ?thesis
    by (auto simp: main_events_def)
qed

text \<open>
  The three combinations on top of the default flags; each stops at its own message.
\<close>

theorem parameterValidation_impossible_flags_witness:
  "main_events (default_flags\<lparr>FLAGS_float_scale := True, FLAGS_affine_depth_to_image := True\<rparr>)
     example_run =
     [Stage InitGoogleLogging, Stage ParseCommandLineFlags, Stage ParameterValidation,
      Aborted (Fatal ''The options --float_scale and --affine_depth_to_image should not be used together. If the latter is used, the scale is always floated.'')] \<and>
   main_events (default_flags\<lparr>FLAGS_float_nonref_cameras := True\<rparr>) example_run =
     [Stage InitGoogleLogging, Stage ParseCommandLineFlags, Stage ParameterValidation,
      Aborted (Fatal ''The option --float_nonref_cameras must be used only with --no_extrinsics.'')] \<and>
   main_events (default_flags\<lparr>FLAGS_float_timestamp_offsets := True, FLAGS_no_extrinsics := True\<rparr>)
     example_run =
     [Stage InitGoogleLogging, Stage ParseCommandLineFlags, Stage ParameterValidation,
      Aborted (Fatal ''Cannot float timestamps with option --no_extrinsics.'')]"
  using parameterValidation_impossible_flags
    [of "default_flags\<lparr>FLAGS_float_scale := True, FLAGS_affine_depth_to_image := True\<rparr>"
       example_run]
    parameterValidation_impossible_flags
    [of "default_flags\<lparr>FLAGS_float_nonref_cameras := True\<rparr>" example_run]
    parameterValidation_impossible_flags
    [of "default_flags\<lparr>FLAGS_float_timestamp_offsets := True, FLAGS_no_extrinsics := True\<rparr>"
       example_run]
  by (simp add: default_flags_def parameterValidation_def)

section \<open>Properties of the order of the stages\<close>



























text \<open>
  With \<open>--float_scale\<close> and a \<open>--extrinsics_to_float\<close> without \<open>depth_to_image\<close>, \<open>main\<close>
  aborts after \<open>parse_extrinsics_to_float\<close>, before the first pass.
\<close>

lemma float_scale_without_depth_to_image_aborts:
  "main_events (two_pass_flags\<lparr>FLAGS_float_scale := True\<rparr>) example_run_fixed_depth =
     [Stage InitGoogleLogging, Stage ParseCommandLineFlags, Stage ParameterValidation,
      Stage ReadRigConfig, Stage ReadImageAndDepthData, Stage RefPosesToArrays,
      Stage ParseIntrinsicsToFloat, Stage ParseExtrinsicsToFloat,
      Aborted (Fatal ''Cannot float the scale of depth_to_image_transform unless this this is allowed as part of --extrinsics_to_float.'')]"
  by (simp add: two_pass_flags_def default_flags_def parameterValidation_def main_events_def
      events_before_passes_def example_run_def example_run_fixed_depth_def
      depth_to_image_name_def)




section \<open>Properties of the copy of the intrinsics\<close>

lemma length_copy_back_one [simp]: "length (copy_back_one arrs it cps) = length cps"
  by (simp add: copy_back_one_def)

lemma length_fold_copy_back [simp]:
  "length (fold (copy_back_one arrs) is cps) = length cps"
  by (induction "is" arbitrary: cps) simp_all

lemma copy_back_one_nth:
  "k < length cps \<Longrightarrow>
   copy_back_one arrs i cps ! k =
     (if k = i
      then SetDistortion (distortions arrs ! k)
             (SetOpticalOffset (optical_centers arrs ! k)
                (SetFocalLength (focal_lengths arrs ! k, focal_lengths arrs ! k) (cps ! k)))
      else cps ! k)"
  by (simp add: copy_back_one_def nth_list_update)

lemma fold_copy_back_nth:
  assumes "distinct is" and "k < length cps"
  shows "fold (copy_back_one arrs) is cps ! k =
         (if k \<in> set is
          then SetDistortion (distortions arrs ! k)
                 (SetOpticalOffset (optical_centers arrs ! k)
                    (SetFocalLength (focal_lengths arrs ! k, focal_lengths arrs ! k) (cps ! k)))
          else cps ! k)"
  using assms
proof (induction "is" arbitrary: cps)
  case Nil
  then show ?case by simp
next
  case (Cons i "is")
  have "fold (copy_back_one arrs) (i # is) cps ! k =
        fold (copy_back_one arrs) is (copy_back_one arrs i cps) ! k"
    by simp
  also have "\<dots> = (if k \<in> set is
          then SetDistortion (distortions arrs ! k)
                 (SetOpticalOffset (optical_centers arrs ! k)
                    (SetFocalLength (focal_lengths arrs ! k, focal_lengths arrs ! k)
                       (copy_back_one arrs i cps ! k)))
          else copy_back_one arrs i cps ! k)"
    using Cons.prems by (intro Cons.IH) simp_all
  finally show ?case
    using Cons.prems by (auto simp: copy_back_one_nth)
qed

lemma length_copy_back_intrinsics [simp]:
  "length (copy_back_intrinsics tf ni r orig arrs cps) = length cps"
  by (simp add: copy_back_intrinsics_def Let_def)

lemma copy_back_intrinsics_ref:
  assumes "tf = [] \<or> ni = 0" and "r < length cps"
  shows "copy_back_intrinsics tf ni r orig arrs cps ! r = orig ! r"
  using assms by (auto simp: copy_back_intrinsics_def Let_def)

lemma copy_back_intrinsics_other:
  assumes "it < length cps" and "it \<noteq> r"
  shows "focal_length (copy_back_intrinsics tf ni r orig arrs cps ! it) =
           (focal_lengths arrs ! it, focal_lengths arrs ! it) \<and>
         optical_offset (copy_back_intrinsics tf ni r orig arrs cps ! it) =
           optical_centers arrs ! it \<and>
         distortion (copy_back_intrinsics tf ni r orig arrs cps ! it) = distortions arrs ! it"
  using assms
  by (simp add: copy_back_intrinsics_def Let_def fold_copy_back_nth
      SetDistortion_def SetOpticalOffset_def SetFocalLength_def)

lemma length_intrinsics_passes [simp]:
  "length (snd (intrinsics_passes tf ni r orig solve n st)) = length (snd st)"
  by (induction n) (simp_all add: split_beta Let_def)

text \<open>
  C7. When \<open>nav_cam_intrinsics_to_float\<close> is empty, then after every pass (the first,
  and every later one) the camera parameters of the reference sensor are those of
  \<open>orig_cam_params\<close>, the copy made before the passes, so that the pair of equal
  focal lengths the copy-back writes does not stay; every other sensor has the focal
  length (twice), the optical centre and the distortion that the solver left in the
  arrays.
\<close>

theorem reference_intrinsics_restored:
  assumes "nav_cam_intrinsics_to_float = []" and "ref_cam_type < length orig_cam_params"
  shows "snd (intrinsics_passes nav_cam_intrinsics_to_float num_iterations ref_cam_type
                orig_cam_params solve (Suc n) (arrs0, orig_cam_params)) ! ref_cam_type =
           orig_cam_params ! ref_cam_type \<and>
         (\<forall>it < length orig_cam_params. it \<noteq> ref_cam_type \<longrightarrow>
            (let st = intrinsics_passes nav_cam_intrinsics_to_float num_iterations ref_cam_type
                        orig_cam_params solve (Suc n) (arrs0, orig_cam_params)
             in focal_length (snd st ! it) = (focal_lengths (fst st) ! it, focal_lengths (fst st) ! it) \<and>
                optical_offset (snd st ! it) = optical_centers (fst st) ! it \<and>
                distortion (snd st ! it) = distortions (fst st) ! it))"
  using assms
  by (simp add: split_beta Let_def copy_back_intrinsics_ref copy_back_intrinsics_other)

text \<open>
  Two sensors, two passes: the reference sensor keeps its two focal lengths 600 and
  610, the other one has 201 + 2 twice.
\<close>

theorem reference_intrinsics_restored_witness:
  "snd (intrinsics_passes [] 20 0 [example_cam0, example_cam1] example_solve (Suc 1) (example_arrays, [example_cam0, example_cam1])) ! 0
     = example_cam0 \<and>
   focal_length
     (snd (intrinsics_passes [] 20 0 [example_cam0, example_cam1] example_solve (Suc 1) (example_arrays, [example_cam0, example_cam1])) ! 1)
     = (203, 203)"
  using reference_intrinsics_restored
    [of "[]" 0 "[example_cam0, example_cam1]" 20 example_solve 1 example_arrays]
  by (simp add: example_solve_def example_arrays_def split_beta Let_def)


section \<open>Properties of the export of the inliers\<close>

lemma getMapValue_entry:
  "getMapValue tab pid cid fid = Inr v \<Longrightarrow> entry tab pid cid fid = Some v"
  by (auto simp: getMapValue_def entry_def split: if_splits option.splits)

lemma map_assign_append:
  "\<forall>k' \<in> set (map fst m). k' < k \<Longrightarrow> map_assign k v m = m @ [(k, v)]"
  by (induction m) auto

lemma nvm_track_keys:
  assumes "nvm_track cam_params cams keypoint_vec inlier pid t (kpm, fc, m) = Inr (kpm', fc', m')"
    and "sorted_wrt (<) (map fst m @ map fst t)"
  shows "map fst m' =
         map fst m @ map fst (filter (\<lambda>(cid, fid). entry inlier pid cid fid \<noteq> Some 0) t)"
  using assms
proof (induction t arbitrary: kpm fc m)
  case Nil
  then show ?case by simp
next
  case (Cons cf t)
  obtain cid fid where cf: "cf = (cid, fid)" by (cases cf)
  from Cons.prems(1) obtain v where g: "getMapValue inlier pid cid fid = Inr v"
    by (auto simp: cf split: sum.splits)
  then have e: "entry inlier pid cid fid = Some v" by (rule getMapValue_entry)
  show ?case
  proof (cases "v = 0")
    case True
    with Cons.prems g have r: "nvm_track cam_params cams keypoint_vec inlier pid t (kpm, fc, m) = Inr (kpm', fc', m')"
      by (simp add: cf)
    from Cons.prems(2) have "sorted_wrt (<) (map fst m @ map fst t)"
      by (auto simp: cf sorted_wrt_append)
    from Cons.IH[OF r this] show ?thesis
      using e True by (simp add: cf)
  next
    case False
    let ?m1 = "map_assign cid (fc ! nat cid) m"
    from Cons.prems(2) have lt: "\<forall>k' \<in> set (map fst m). k' < cid"
      by (auto simp: cf sorted_wrt_append)
    then have m1: "?m1 = m @ [(cid, fc ! nat cid)]"
      by (rule map_assign_append)
    from Cons.prems(1) g False obtain kpm1 fc1 where
      r: "nvm_track cam_params cams keypoint_vec inlier pid t (kpm1, fc1, ?m1) = Inr (kpm', fc', m')"
      by (auto simp: cf Let_def split: if_splits)
    from Cons.prems(2) have "sorted_wrt (<) (map fst ?m1 @ map fst t)"
      by (auto simp: cf m1 sorted_wrt_append)
    from Cons.IH[OF r this] show ?thesis
      using e False by (simp add: cf m1)
  qed
qed

lemma nvm_track_size:
  assumes "nvm_track cam_params cams keypoint_vec inlier pid t (kpm, fc, []) = Inr (kpm', fc', m')"
    and "sorted_wrt (<) (map fst t)"
  shows "length m' = num_inliers inlier pid t"
proof -
  from nvm_track_keys[OF assms(1)] assms(2)
  have "map fst m' = map fst (filter (\<lambda>(cid, fid). entry inlier pid cid fid \<noteq> Some 0) t)"
    by simp
  then have "length (map fst m') = length (map fst (filter (\<lambda>(cid, fid). entry inlier pid cid fid \<noteq> Some 0) t))"
    by simp
  then show ?thesis by (simp add: num_inliers_def)
qed

text \<open>The tracks that the loop pushes, counted from \<open>pid\<close>.\<close>

lemma nvm_tracks_kept:
  assumes "nvm_tracks cam_params cams keypoint_vec inlier xyz_vec pid ts (kpm, fc, nt, nx) =
             Inr (kpm', fc', nt', nx')"
    and "\<forall>t \<in> set ts. sorted_wrt (<) (map fst t)"
  shows "nx' = nx @ map (\<lambda>p. xyz_vec ! p)
                 (filter (\<lambda>p. 2 < num_inliers inlier p (ts ! (p - pid))) [pid..<pid + length ts]) \<and>
         map (map fst) nt' = map (map fst) nt @
           map (\<lambda>p. map fst (filter (\<lambda>(cid, fid). entry inlier p cid fid \<noteq> Some 0) (ts ! (p - pid))))
             (filter (\<lambda>p. 2 < num_inliers inlier p (ts ! (p - pid))) [pid..<pid + length ts])"
  using assms
proof (induction ts arbitrary: pid kpm fc nt nx)
  case Nil
  then show ?case by simp
next
  case (Cons t ts)
  from Cons.prems(1) obtain kpm1 fc1 m1 where
    tr: "nvm_track cam_params cams keypoint_vec inlier pid t (kpm, fc, []) = Inr (kpm1, fc1, m1)"
    by (auto split: sum.splits)
  from Cons.prems(2) have st: "sorted_wrt (<) (map fst t)" and sts: "\<forall>t \<in> set ts. sorted_wrt (<) (map fst t)"
    by simp_all
  have len: "length m1 = num_inliers inlier pid t"
    using nvm_track_size[OF tr st] .
  have keys: "map fst m1 = map fst (filter (\<lambda>(cid, fid). entry inlier pid cid fid \<noteq> Some 0) t)"
    using nvm_track_keys[OF tr] st by simp
  have upt: "[pid..<pid + length (t # ts)] = pid # [Suc pid..<Suc pid + length ts]"
    by (simp add: upt_rec)
  have tail: "filter (\<lambda>p. 2 < num_inliers inlier p ((t # ts) ! (p - pid))) [Suc pid..<Suc pid + length ts]
            = filter (\<lambda>p. 2 < num_inliers inlier p (ts ! (p - Suc pid))) [Suc pid..<Suc pid + length ts]"
    by (rule filter_cong) (auto simp: nth_Cons' Suc_diff_le)
  have tail2: "map (\<lambda>p. map fst (filter (\<lambda>(cid, fid). entry inlier p cid fid \<noteq> Some 0) ((t # ts) ! (p - pid))))
             (filter (\<lambda>p. 2 < num_inliers inlier p (ts ! (p - Suc pid))) [Suc pid..<Suc pid + length ts])
      = map (\<lambda>p. map fst (filter (\<lambda>(cid, fid). entry inlier p cid fid \<noteq> Some 0) (ts ! (p - Suc pid))))
             (filter (\<lambda>p. 2 < num_inliers inlier p (ts ! (p - Suc pid))) [Suc pid..<Suc pid + length ts])"
    by (rule map_cong) (auto simp: nth_Cons' Suc_diff_le)
  have kept: "filter (\<lambda>p. 2 < num_inliers inlier p ((t # ts) ! (p - pid))) [pid..<pid + length (t # ts)]
            = (if 2 < num_inliers inlier pid t then [pid] else []) @
              filter (\<lambda>p. 2 < num_inliers inlier p (ts ! (p - Suc pid))) [Suc pid..<Suc pid + length ts]"
    unfolding upt using tail by simp
  show ?case
  proof (cases "2 < length m1")
    case True
    with Cons.prems(1) tr have r: "nvm_tracks cam_params cams keypoint_vec inlier xyz_vec (Suc pid) ts
        (kpm1, fc1, nt @ [m1], nx @ [xyz_vec ! pid]) = Inr (kpm', fc', nt', nx')"
      by simp
    from Cons.IH[OF r sts] True len keys tail2 show ?thesis
      unfolding kept by simp
  next
    case False
    with Cons.prems(1) tr have r: "nvm_tracks cam_params cams keypoint_vec inlier xyz_vec (Suc pid) ts
        (kpm1, fc1, nt, nx) = Inr (kpm', fc', nt', nx')"
      by simp
    from Cons.IH[OF r sts] False len tail2 show ?thesis
      unfolding kept by simp
  qed
qed

text \<open>
  C10. When \<open>writeNvm\<close> reaches \<open>WriteNVM\<close>, the tracks it hands over are those
  with more than two inlier observations, in their order: their points are the
  points of these tracks, and their cameras are the cameras of the inlier
  observations of these tracks. A track with exactly two inlier observations is not
  among them. The cameras of a track are in increasing order, as the keys of a
  \<open>std::map\<close> are.
\<close>

theorem writeNvm_keeps_more_than_two_inliers:
  assumes "writeNvm kp_dflt cam_params cams world_to_cam keypoint_vec pid_to_cid_fid
             pid_cid_fid_inlier xyz_vec = Inr out"
    and "\<forall>t \<in> set pid_to_cid_fid. sorted_wrt (<) (map fst t)"
  shows "nvm_pid_to_xyz out =
           map (\<lambda>pid. xyz_vec ! pid)
             (filter (\<lambda>pid. 2 < num_inliers pid_cid_fid_inlier pid (pid_to_cid_fid ! pid))
                [0..<length pid_to_cid_fid]) \<and>
         map (map fst) (nvm_pid_to_cid_fid out) =
           map (\<lambda>pid. map fst (filter (\<lambda>(cid, fid). entry pid_cid_fid_inlier pid cid fid \<noteq> Some 0)
                                 (pid_to_cid_fid ! pid)))
             (filter (\<lambda>pid. 2 < num_inliers pid_cid_fid_inlier pid (pid_to_cid_fid ! pid))
                [0..<length pid_to_cid_fid])"
proof -
  from assms(1) obtain kpm fc nt nx where
    r: "nvm_tracks cam_params cams keypoint_vec pid_cid_fid_inlier xyz_vec 0 pid_to_cid_fid
          (map (\<lambda>kps. replicate (length kps) kp_dflt) keypoint_vec,
           replicate (length keypoint_vec) 0, [], []) = Inr (kpm, fc, nt, nx)"
    and o: "nvm_pid_to_xyz out = nx" "nvm_pid_to_cid_fid out = nt"
    unfolding writeNvm_def by (auto split: if_splits sum.splits)
  from nvm_tracks_kept[OF r assms(2)] o show ?thesis
    by simp
qed

text \<open>
  The first example track has two inlier observations and the second three: only the
  second track and its point are handed over, while the keypoints of both are.
\<close>

theorem writeNvm_keeps_more_than_two_inliers_witness:
  "writeNvm (0, 0) [example_cam0] example_cams [(), (), ()] example_keypoints example_tracks
     example_inliers example_xyz =
   Inr \<lparr>cid_to_keypoint_map =
          [[(- 310, - 220), (- 290, - 200)], [(- 309, - 219), (- 289, - 199)], [(- 308, - 218)]],
        cid_to_filename = [''nav/10.jpg'', ''nav/11.jpg'', ''nav/12.jpg''],
        nvm_focal_lengths = [605, 605, 605],
        nvm_pid_to_cid_fid = [[(0, 1), (1, 1), (2, 0)]],
        nvm_pid_to_xyz = [(Finite 4, Finite 5, Finite 6)],
        cid_to_cam_t_global = [(), (), ()]\<rparr> \<and>
   num_inliers example_inliers 0 (example_tracks ! 0) = 2 \<and>
   num_inliers example_inliers 1 (example_tracks ! 1) = 3"
proof -
  have w: "writeNvm (0, 0) [example_cam0] example_cams [(), (), ()] example_keypoints
             example_tracks example_inliers example_xyz =
           Inr \<lparr>cid_to_keypoint_map =
          [[(- 310, - 220), (- 290, - 200)], [(- 309, - 219), (- 289, - 199)], [(- 308, - 218)]],
        cid_to_filename = [''nav/10.jpg'', ''nav/11.jpg'', ''nav/12.jpg''],
        nvm_focal_lengths = [605, 605, 605],
        nvm_pid_to_cid_fid = [[(0, 1), (1, 1), (2, 0)]],
        nvm_pid_to_xyz = [(Finite 4, Finite 5, Finite 6)],
        cid_to_cam_t_global = [(), (), ()]\<rparr>"
    by (simp add: writeNvm_def example_cams_def example_keypoints_def example_tracks_def
        example_inliers_def example_xyz_def example_cam0_def getMapValue_def
        GetOpticalOffset_def GetFocalLength_def resize_def upt_rec)
  have s: "\<forall>t \<in> set example_tracks. sorted_wrt (<) (map fst t)"
    by (simp add: example_tracks_def)
  from writeNvm_keeps_more_than_two_inliers [OF w s] w show ?thesis
    by (simp add: num_inliers_def example_tracks_def example_inliers_def entry_def)
qed

section \<open>Properties of the inlier mask\<close>

lemma cleared_only_refl: "cleared_only m m"
  by (simp add: cleared_only_def)

lemma cleared_only_trans:
  assumes "cleared_only m1 m2" and "cleared_only m2 m3"
  shows "cleared_only m1 m3"
  unfolding cleared_only_def
proof (intro conjI allI)
  show "length m3 = length m1"
    using assms by (simp add: cleared_only_def)
next
  fix pid cid fid
  from assms(1) have a: "entry m2 pid cid fid = entry m1 pid cid fid \<or>
        (entry m1 pid cid fid \<noteq> None \<and> entry m2 pid cid fid = Some 0)"
    by (simp add: cleared_only_def)
  from assms(2) have b: "entry m3 pid cid fid = entry m2 pid cid fid \<or>
        (entry m2 pid cid fid \<noteq> None \<and> entry m3 pid cid fid = Some 0)"
    by (simp add: cleared_only_def)
  from a b show "entry m3 pid cid fid = entry m1 pid cid fid \<or>
        (entry m1 pid cid fid \<noteq> None \<and> entry m3 pid cid fid = Some 0)"
    by metis
qed

lemma setMapValue_entry:
  assumes "setMapValue m pid cid fid val = Inr m'"
  shows "length m' = length m"
    and "entry m pid cid fid \<noteq> None"
    and "entry m' p c f = (if p = pid \<and> c = cid \<and> f = fid then Some val else entry m p c f)"
  using assms
  by (auto simp: setMapValue_def entry_def nth_list_update split: if_splits option.splits)

lemma setMapValue_cleared: "setMapValue m pid cid fid 0 = Inr m' \<Longrightarrow> cleared_only m m'"
  unfolding cleared_only_def
  using setMapValue_entry[of m pid cid fid 0 m'] by auto

lemma set_all_outliers_cleared:
  "set_all_outliers m pid t = Inr m' \<Longrightarrow> cleared_only m m'"
proof (induction t arbitrary: m)
  case Nil
  then show ?case by (simp add: cleared_only_refl)
next
  case (Cons cf t)
  obtain cid fid where cf: "cf = (cid, fid)" by (cases cf)
  from Cons.prems obtain m1 where
    1: "setMapValue m pid cid fid 0 = Inr m1" and 2: "set_all_outliers m1 pid t = Inr m'"
    by (auto simp: cf split: sum.splits)
  from setMapValue_cleared[OF 1] Cons.IH[OF 2] show ?case
    by (rule cleared_only_trans)
qed

lemma triangulate_tracks_cleared:
  "triangulate_tracks ray tri pid ts m xyz_vec = Inr (m', xyz_vec') \<Longrightarrow> cleared_only m m'"
proof (induction ts arbitrary: pid m xyz_vec)
  case Nil
  then show ?case by (simp add: cleared_only_refl)
next
  case (Cons t ts)
  from Cons.prems obtain pix_vec where c: "collect_rays ray m pid t = Inr pix_vec"
    by (auto split: sum.splits)
  show ?case
  proof (cases "length pix_vec < 2")
    case True
    with Cons.prems c obtain m1 where
      1: "set_all_outliers m pid t = Inr m1"
      and 2: "triangulate_tracks ray tri (Suc pid) ts m1 xyz_vec = Inr (m', xyz_vec')"
      by (auto split: sum.splits)
    from set_all_outliers_cleared[OF 1] Cons.IH[OF 2] show ?thesis
      by (rule cleared_only_trans)
  next
    case False
    with Cons.prems c have
      "triangulate_tracks ray tri (Suc pid) ts m (xyz_vec[pid := tri pix_vec]) = Inr (m', xyz_vec')"
      by simp
    then show ?thesis by (rule Cons.IH)
  qed
qed

lemma multiViewTriangulation_cleared:
  "multiViewTriangulation ray tri d ts m xyz_vec = Inr (m', xyz_vec') \<Longrightarrow> cleared_only m m'"
  unfolding multiViewTriangulation_def by (rule triangulate_tracks_cleared)

lemma flag_inliers_cleared:
  "flag_inliers m pid t = Inr m' \<Longrightarrow> cleared_only m m'"
proof (induction t arbitrary: m)
  case Nil
  then show ?case by (simp add: cleared_only_refl)
next
  case (Cons cf t)
  obtain cid fid where cf: "cf = (cid, fid)" by (cases cf)
  from Cons.prems obtain v where g: "getMapValue m pid cid fid = Inr v"
    by (auto simp: cf split: sum.splits)
  show ?case
  proof (cases "v = 0")
    case True
    with Cons.prems g have "flag_inliers m pid t = Inr m'" by (simp add: cf)
    then show ?thesis by (rule Cons.IH)
  next
    case False
    with Cons.prems g obtain m1 where
      1: "setMapValue m pid cid fid 0 = Inr m1" and 2: "flag_inliers m1 pid t = Inr m'"
      by (auto simp: cf split: sum.splits)
    from setMapValue_cleared[OF 1] Cons.IH[OF 2] show ?thesis
      by (rule cleared_only_trans)
  qed
qed

lemma flagByTriAngle_cleared:
  "flagByTriAngle min_angle angle pid ts m = Inr m' \<Longrightarrow> cleared_only m m'"
proof (induction ts arbitrary: pid m)
  case Nil
  then show ?case by (simp add: cleared_only_refl)
next
  case (Cons t ts)
  from Cons.prems obtain mx where a: "max_angle (angle pid) m pid t t 0 = Inr mx"
    by (auto split: sum.splits)
  show ?case
  proof (cases "mx \<ge> min_angle")
    case True
    with Cons.prems a have "flagByTriAngle min_angle angle (Suc pid) ts m = Inr m'" by simp
    then show ?thesis by (rule Cons.IH)
  next
    case False
    with Cons.prems a obtain m1 where
      1: "flag_inliers m pid t = Inr m1"
      and 2: "flagByTriAngle min_angle angle (Suc pid) ts m1 = Inr m'"
      by (auto split: sum.splits)
    from flag_inliers_cleared[OF 1] Cons.IH[OF 2] show ?thesis
      by (rule cleared_only_trans)
  qed
qed

lemma reproj_track_cleared:
  "reproj_track vec_norm max_err idx residuals pid t m = Inr m' \<Longrightarrow> cleared_only m m'"
proof (induction t arbitrary: m)
  case Nil
  then show ?case by (simp add: cleared_only_refl)
next
  case (Cons cf t)
  obtain cid fid where cf: "cf = (cid, fid)" by (cases cf)
  from Cons.prems obtain v where g: "getMapValue m pid cid fid = Inr v"
    by (auto simp: cf split: sum.splits)
  show ?case
  proof (cases "v = 0")
    case True
    with Cons.prems g have "reproj_track vec_norm max_err idx residuals pid t m = Inr m'"
      by (simp add: cf)
    then show ?thesis by (rule Cons.IH)
  next
    case False
    with Cons.prems g obtain m1 where
      1: "m1 = m \<or> setMapValue m pid cid fid 0 = Inr m1"
      and 2: "reproj_track vec_norm max_err idx residuals pid t m1 = Inr m'"
      by (auto simp: cf Let_def split: sum.splits if_splits)
    from 1 have "cleared_only m m1"
      by (auto simp: cleared_only_refl setMapValue_cleared)
    from this Cons.IH[OF 2] show ?thesis
      by (rule cleared_only_trans)
  qed
qed

lemma flagByReprojErr_cleared:
  "flagByReprojErr vec_norm max_err idx residuals pid ts m = Inr m' \<Longrightarrow> cleared_only m m'"
proof (induction ts arbitrary: pid m)
  case Nil
  then show ?case by (simp add: cleared_only_refl)
next
  case (Cons t ts)
  from Cons.prems obtain m1 where
    1: "reproj_track vec_norm max_err idx residuals pid t m = Inr m1"
    and 2: "flagByReprojErr vec_norm max_err idx residuals (Suc pid) ts m1 = Inr m'"
    by (auto split: sum.splits)
  from reproj_track_cleared[OF 1] Cons.IH[OF 2] show ?case
    by (rule cleared_only_trans)
qed

lemma flagOutliersByTriAngleAndReprojErr_cleared:
  assumes "flagOutliersByTriAngleAndReprojErr vec_norm min_angle max_err ts angle idx residuals m = Inr m'"
  shows "cleared_only m m'"
proof -
  from assms obtain m1 where
    1: "flagByTriAngle min_angle angle 0 ts m = Inr m1"
    and 2: "flagByReprojErr vec_norm max_err idx residuals 0 ts m1 = Inr m'"
    unfolding flagOutliersByTriAngleAndReprojErr_def by (auto split: sum.splits)
  from flagByTriAngle_cleared[OF 1] flagByReprojErr_cleared[OF 2] show ?thesis
    by (rule cleared_only_trans)
qed

lemma optimization_pass_cleared:
  assumes "optimization_pass min_angle max_err ts env m = Inr m'"
  shows "cleared_only m m'"
proof -
  from assms obtain m1 xyz_vec where
    1: "multiViewTriangulation (env_ray env) (env_tri env) (env_xyz_dflt env) ts m [] = Inr (m1, xyz_vec)"
    and 2: "flagOutliersByTriAngleAndReprojErr (env_norm env) min_angle max_err ts (env_angle env m1 xyz_vec)
              (env_residual_index env m1 xyz_vec) (env_residuals env m1 xyz_vec) m1 = Inr m'"
    unfolding optimization_pass_def by (auto split: sum.splits)
  from multiViewTriangulation_cleared[OF 1] flagOutliersByTriAngleAndReprojErr_cleared[OF 2]
  show ?thesis by (rule cleared_only_trans)
qed

lemma run_passes_cleared:
  "run_passes min_angle max_err ts envs m = Inr m' \<Longrightarrow> cleared_only m m'"
proof (induction envs arbitrary: m)
  case Nil
  then show ?case by (simp add: cleared_only_refl)
next
  case (Cons env envs)
  from Cons.prems obtain m1 where
    1: "optimization_pass min_angle max_err ts env m = Inr m1"
    and 2: "run_passes min_angle max_err ts envs m1 = Inr m'"
    by (auto split: sum.splits)
  from optimization_pass_cleared[OF 1] Cons.IH[OF 2] show ?case
    by (rule cleared_only_trans)
qed

lemma run_passes_append:
  "run_passes min_angle max_err ts (xs @ ys) m =
     (case run_passes min_angle max_err ts xs m of
        Inl e \<Rightarrow> Inl e
      | Inr m1 \<Rightarrow> run_passes min_angle max_err ts ys m1)"
  by (induction xs arbitrary: m) (auto split: sum.splits)

text \<open>The mask that the boundary exclusion creates holds 0 and 1 only.\<close>

lemma entry_set_entry:
  "entry (set_entry m pid cid fid val) p c f =
     (if pid < length m \<and> p = pid \<and> c = cid \<and> f = fid then Some val else entry m p c f)"
proof (cases "pid < length m")
  case True
  then show ?thesis
    by (cases "p = pid") (auto simp: set_entry_def entry_def split: option.splits)
next
  case False
  then have "length m \<le> pid" by simp
  then have "set_entry m pid cid fid val = m"
    unfolding set_entry_def by (rule list_update_beyond)
  with False show ?thesis by simp
qed

lemma exclude_track_binary:
  assumes "exclude_track r excl cps cams kps pid t m = Inr m'"
    and "\<forall>p c f v. entry m p c f = Some v \<longrightarrow> v = 0 \<or> v = 1"
  shows "\<forall>p c f v. entry m' p c f = Some v \<longrightarrow> v = 0 \<or> v = 1"
  using assms
proof (induction t arbitrary: m)
  case Nil
  then show ?case by simp
next
  case (Cons cf t)
  obtain cid fid where cf: "cf = (cid, fid)" by (cases cf)
  let ?m1 = "set_entry m pid cid fid 1"
  from Cons.prems(1) obtain m2 where
    1: "m2 = ?m1 \<or> setMapValue ?m1 pid cid fid 0 = Inr m2"
    and 2: "exclude_track r excl cps cams kps pid t m2 = Inr m'"
    by (auto simp: cf Let_def split: sum.splits if_splits)
  have b1: "\<forall>p c f v. entry ?m1 p c f = Some v \<longrightarrow> v = 0 \<or> v = 1"
    using Cons.prems(2) by (auto simp: entry_set_entry split: if_splits)
  have "\<forall>p c f v. entry m2 p c f = Some v \<longrightarrow> v = 0 \<or> v = 1"
    using 1
  proof
    assume "m2 = ?m1" with b1 show ?thesis by simp
  next
    assume s: "setMapValue ?m1 pid cid fid 0 = Inr m2"
    show ?thesis
      using b1 setMapValue_entry(3)[OF s] by (auto split: if_splits)
  qed
  from Cons.IH[OF 2 this] show ?case .
qed

lemma exclude_tracks_binary:
  assumes "exclude_tracks r excl cps cams kps pid ts m = Inr m'"
    and "\<forall>p c f v. entry m p c f = Some v \<longrightarrow> v = 0 \<or> v = 1"
  shows "\<forall>p c f v. entry m' p c f = Some v \<longrightarrow> v = 0 \<or> v = 1"
  using assms
proof (induction ts arbitrary: pid m)
  case Nil
  then show ?case by simp
next
  case (Cons t ts)
  from Cons.prems(1) obtain m1 where
    1: "exclude_track r excl cps cams kps pid t m = Inr m1"
    and 2: "exclude_tracks r excl cps cams kps (Suc pid) ts m1 = Inr m'"
    by (auto split: sum.splits)
  from Cons.IH[OF 2 exclude_track_binary[OF 1 Cons.prems(2)]] show ?case .
qed

lemma flagOutlierByExclusionDist_binary:
  assumes "flagOutlierByExclusionDist r excl cps cams ts kps [] = Inr m0"
  shows "\<forall>p c f v. entry m0 p c f = Some v \<longrightarrow> v = 0 \<or> v = 1"
proof -
  have "\<forall>p c f v. entry (resize (length ts) Map.empty []) p c f = Some v \<longrightarrow> v = 0 \<or> v = (1::int)"
    by (simp add: entry_def resize_def)
  with assms show ?thesis
    unfolding flagOutlierByExclusionDist_def by (rule exclude_tracks_binary)
qed

text \<open>
  C3. The driver creates the mask with the boundary exclusion and then runs its
  passes. For the masks after \<open>j\<close> and after \<open>k \<ge> j\<close> passes (\<open>j = 0\<close> is the mask
  as created) and every \<open>(pid, cid, fid)\<close>: an entry that is 0 after \<open>j\<close> passes is 0
  after \<open>k\<close> passes, and every entry after \<open>k\<close> passes is at most what it was after
  \<open>j\<close> passes. Inside a pass, neither the triangulation nor the flagging by angle
  and reprojection error lets an entry leave 0, on any mask and whatever the norm of
  the residuals evaluates to.
\<close>

theorem inlier_mask_monotone:
  assumes "flagOutlierByExclusionDist ref_cam_type excl cam_params cams pid_to_cid_fid
             keypoint_vec [] = Inr inlier0"
    and "run_passes min_angle max_err pid_to_cid_fid (take j envs) inlier0 = Inr inlier_j"
    and "run_passes min_angle max_err pid_to_cid_fid (take k envs) inlier0 = Inr inlier_k"
    and "j \<le> k"
  shows "(entry inlier_j pid cid fid = Some 0 \<longrightarrow> entry inlier_k pid cid fid = Some 0) \<and>
         (\<forall>v. entry inlier_j pid cid fid = Some v \<longrightarrow>
              (\<exists>v'. entry inlier_k pid cid fid = Some v' \<and> v' \<le> v)) \<and>
         (multiViewTriangulation ray tri xyz_dflt pid_to_cid_fid inlier xyz_vec = Inr (inlier', xyz_vec') \<and>
          entry inlier pid cid fid = Some 0 \<longrightarrow> entry inlier' pid cid fid = Some 0) \<and>
         (flagOutliersByTriAngleAndReprojErr vec_norm min_angle max_err pid_to_cid_fid angle idx
            residuals
            inlier = Inr inlier'' \<and>
          entry inlier pid cid fid = Some 0 \<longrightarrow> entry inlier'' pid cid fid = Some 0)"
proof -
  have tk: "take k envs = take j envs @ drop j (take k envs)"
    using \<open>j \<le> k\<close> by (metis append_take_drop_id min.absorb1 take_take)
  from assms(3) have "run_passes min_angle max_err pid_to_cid_fid (take j envs @ drop j (take k envs)) inlier0 = Inr inlier_k"
    using tk by simp
  with assms(2) have "run_passes min_angle max_err pid_to_cid_fid (drop j (take k envs)) inlier_j = Inr inlier_k"
    by (simp add: run_passes_append)
  then have jk: "cleared_only inlier_j inlier_k"
    by (rule run_passes_cleared)
  have "cleared_only inlier0 inlier_j"
    using assms(2) by (rule run_passes_cleared)
  with flagOutlierByExclusionDist_binary[OF assms(1)]
  have bin: "\<forall>p c f v. entry inlier_j p c f = Some v \<longrightarrow> v = 0 \<or> v = 1"
    unfolding cleared_only_def by (metis option.inject)
  have a: "entry inlier_j pid cid fid = Some 0 \<longrightarrow> entry inlier_k pid cid fid = Some 0"
    using jk unfolding cleared_only_def by metis
  have b: "\<forall>v. entry inlier_j pid cid fid = Some v \<longrightarrow>
              (\<exists>v'. entry inlier_k pid cid fid = Some v' \<and> v' \<le> v)"
  proof (intro allI impI)
    fix v assume v: "entry inlier_j pid cid fid = Some v"
    with bin have "v = 0 \<or> v = 1" by blast
    moreover from jk have "entry inlier_k pid cid fid = entry inlier_j pid cid fid \<or>
        entry inlier_k pid cid fid = Some 0"
      unfolding cleared_only_def by blast
    ultimately show "\<exists>v'. entry inlier_k pid cid fid = Some v' \<and> v' \<le> v"
      using v by auto
  qed
  have c: "multiViewTriangulation ray tri xyz_dflt pid_to_cid_fid inlier xyz_vec = Inr (inlier', xyz_vec') \<and>
          entry inlier pid cid fid = Some 0 \<longrightarrow> entry inlier' pid cid fid = Some 0"
    using multiViewTriangulation_cleared[of ray tri xyz_dflt pid_to_cid_fid inlier xyz_vec inlier' xyz_vec']
    unfolding cleared_only_def by metis
  have d: "flagOutliersByTriAngleAndReprojErr vec_norm min_angle max_err pid_to_cid_fid angle idx
            residuals
            inlier = Inr inlier'' \<and>
          entry inlier pid cid fid = Some 0 \<longrightarrow> entry inlier'' pid cid fid = Some 0"
    using flagOutliersByTriAngleAndReprojErr_cleared[of vec_norm min_angle max_err pid_to_cid_fid angle idx
        residuals inlier inlier'']
    unfolding cleared_only_def by metis
  from a b c d show ?thesis by blast
qed

text \<open>
  The example tracks with a boundary band of 15 pixels, and two passes. The mask as
  created has the three pixels near the left edge at 0; the first pass clears the
  observation with the bad residuals, which stays cleared in the second pass. The
  two steps of the first pass, each on the mask as created, leave the cleared
  entries cleared.
\<close>

theorem inlier_mask_monotone_witness:
  "flagOutlierByExclusionDist 0 15 [example_cam0] example_cams example_tracks example_keypoints []
     = Inr [[0 \<mapsto> [0 \<mapsto> 0], 1 \<mapsto> [0 \<mapsto> 0]],
            [0 \<mapsto> [1 \<mapsto> 1], 1 \<mapsto> [1 \<mapsto> 1], 2 \<mapsto> [0 \<mapsto> 0]]] \<and>
   run_passes (1 / 2) 25 example_tracks (take 1 [example_env, example_env])
     [[0 \<mapsto> [0 \<mapsto> 0], 1 \<mapsto> [0 \<mapsto> 0]],
      [0 \<mapsto> [1 \<mapsto> 1], 1 \<mapsto> [1 \<mapsto> 1], 2 \<mapsto> [0 \<mapsto> 0]]]
     = Inr [[0 \<mapsto> [0 \<mapsto> 0], 1 \<mapsto> [0 \<mapsto> 0]],
            [0 \<mapsto> [1 \<mapsto> 1], 2 \<mapsto> [0 \<mapsto> 0], 1 \<mapsto> [1 \<mapsto> 0]]] \<and>
   run_passes (1 / 2) 25 example_tracks (take 2 [example_env, example_env])
     [[0 \<mapsto> [0 \<mapsto> 0], 1 \<mapsto> [0 \<mapsto> 0]],
      [0 \<mapsto> [1 \<mapsto> 1], 1 \<mapsto> [1 \<mapsto> 1], 2 \<mapsto> [0 \<mapsto> 0]]]
     = Inr [[0 \<mapsto> [0 \<mapsto> 0], 1 \<mapsto> [0 \<mapsto> 0]],
            [0 \<mapsto> [1 \<mapsto> 0], 1 \<mapsto> [1 \<mapsto> 0], 2 \<mapsto> [0 \<mapsto> 0]]] \<and>
   entry [[0 \<mapsto> [0 \<mapsto> 0], 1 \<mapsto> [0 \<mapsto> 0]],
          [0 \<mapsto> [1 \<mapsto> 0], 1 \<mapsto> [1 \<mapsto> 0], 2 \<mapsto> [0 \<mapsto> (0::int)]]] 1 1 1 = Some 0 \<and>
   multiViewTriangulation (env_ray example_env) (env_tri example_env) (env_xyz_dflt example_env)
     example_tracks
     [[0 \<mapsto> [0 \<mapsto> 0], 1 \<mapsto> [0 \<mapsto> 0]],
      [0 \<mapsto> [1 \<mapsto> 1], 1 \<mapsto> [1 \<mapsto> 1], 2 \<mapsto> [0 \<mapsto> 0]]] []
     = Inr ([[0 \<mapsto> [0 \<mapsto> 0], 1 \<mapsto> [0 \<mapsto> 0]],
             [0 \<mapsto> [1 \<mapsto> 1], 1 \<mapsto> [1 \<mapsto> 1], 2 \<mapsto> [0 \<mapsto> 0]]],
            [(Finite 0, Finite 0, Finite 0), (Finite 1, Finite 2, Finite 3)]) \<and>
   flagOutliersByTriAngleAndReprojErr norm2 (1 / 2) 25 example_tracks (\<lambda>pid cid1 cid2. Finite 10)
     [Map.empty, [0 \<mapsto> [1 \<mapsto> 0], 1 \<mapsto> [1 \<mapsto> 2]]] [Finite 0, Finite 0, NaN, Finite 0]
     [[0 \<mapsto> [0 \<mapsto> 0], 1 \<mapsto> [0 \<mapsto> 0]],
      [0 \<mapsto> [1 \<mapsto> 1], 1 \<mapsto> [1 \<mapsto> 1], 2 \<mapsto> [0 \<mapsto> 0]]]
     = Inr [[0 \<mapsto> [0 \<mapsto> 0], 1 \<mapsto> [0 \<mapsto> 0]],
            [0 \<mapsto> [1 \<mapsto> 1], 2 \<mapsto> [0 \<mapsto> 0], 1 \<mapsto> [1 \<mapsto> 0]]]"
proof -
  let ?m0 = "[[0 \<mapsto> [0 \<mapsto> 0], 1 \<mapsto> [0 \<mapsto> 0]],
      [0 \<mapsto> [1 \<mapsto> 1], 1 \<mapsto> [1 \<mapsto> 1], 2 \<mapsto> [0 \<mapsto> 0]]] :: int pid_cid_fid"
  let ?m1 = "[[0 \<mapsto> [0 \<mapsto> 0], 1 \<mapsto> [0 \<mapsto> 0]],
            [0 \<mapsto> [1 \<mapsto> 1], 2 \<mapsto> [0 \<mapsto> 0], 1 \<mapsto> [1 \<mapsto> 0]]] :: int pid_cid_fid"
  let ?m2 = "[[0 \<mapsto> [0 \<mapsto> 0], 1 \<mapsto> [0 \<mapsto> 0]],
            [0 \<mapsto> [1 \<mapsto> 0], 1 \<mapsto> [1 \<mapsto> 0], 2 \<mapsto> [0 \<mapsto> 0]]] :: int pid_cid_fid"
  have h0: "flagOutlierByExclusionDist 0 15 [example_cam0] example_cams example_tracks
              example_keypoints [] = Inr ?m0"
    by (simp add: example_cams_def example_keypoints_def example_tracks_def example_cam0_def
        setMapValue_def set_entry_def at_boundary_def resize_def flagOutlierByExclusionDist_def
        Let_def)
  have h1: "run_passes (1 / 2) 25 example_tracks (take 1 [example_env, example_env]) ?m0 = Inr ?m1"
    by (simp add: example_tracks_def getMapValue_def setMapValue_def resize_def
        optimization_pass_def multiViewTriangulation_def flagOutliersByTriAngleAndReprojErr_def
        example_env_def to_size_t_def norm2_def Let_def)
  have h2: "run_passes (1 / 2) 25 example_tracks (take 2 [example_env, example_env]) ?m0 = Inr ?m2"
    by (simp add: example_tracks_def getMapValue_def setMapValue_def resize_def
        optimization_pass_def multiViewTriangulation_def flagOutliersByTriAngleAndReprojErr_def
        example_env_def to_size_t_def norm2_def Let_def)
  have t: "multiViewTriangulation (env_ray example_env) (env_tri example_env)
             (env_xyz_dflt example_env) example_tracks ?m0 []
           = Inr (?m0, [(Finite 0, Finite 0, Finite 0), (Finite 1, Finite 2, Finite 3)])"
    by (simp add: example_tracks_def getMapValue_def setMapValue_def resize_def
        multiViewTriangulation_def example_env_def)
  have f: "flagOutliersByTriAngleAndReprojErr norm2 (1 / 2) 25 example_tracks (\<lambda>pid cid1 cid2. Finite 10)
             [Map.empty, [0 \<mapsto> [1 \<mapsto> 0], 1 \<mapsto> [1 \<mapsto> 2]]] [Finite 0, Finite 0, NaN, Finite 0] ?m0
           = Inr ?m1"
    by (simp add: example_tracks_def getMapValue_def setMapValue_def
        flagOutliersByTriAngleAndReprojErr_def to_size_t_def norm2_def Let_def)
  have e1: "entry ?m1 1 1 1 = Some 0" and e0: "entry ?m0 1 2 0 = Some 0"
    by (simp_all add: entry_def)
  have le: "(1::nat) \<le> 2"
    by simp
  from inlier_mask_monotone [OF h0 h1 h2 le, of 1 1 1, THEN conjunct1] e1
  have "entry ?m2 1 1 1 = Some 0"
    by simp
  moreover
  from inlier_mask_monotone [OF h0 h1 h2 le, of 1 2 0 "env_ray example_env" "env_tri example_env"
      "env_xyz_dflt example_env" ?m0 "[]" ?m0
      "[(Finite 0, Finite 0, Finite 0), (Finite 1, Finite 2, Finite 3)]" norm2
      "\<lambda>pid cid1 cid2. Finite 10" "[Map.empty, [0 \<mapsto> [1 \<mapsto> 0], 1 \<mapsto> [1 \<mapsto> 2]]]"
      "[Finite 0, Finite 0, NaN, Finite 0]" ?m1] t f e0
  have "entry ?m0 1 2 0 = Some 0 \<and> entry ?m1 1 2 0 = Some 0"
    by simp
  ultimately show ?thesis
    using h0 h1 h2 t f by simp
qed

section \<open>Properties of the triangulation of the tracks\<close>

text \<open>
  C1 asks that a track whose triangulated point holds a NaN or an Inf has all its
  observations flagged in the same call. The version of
  \<open>multiViewTriangulation\<close> that the driver calls does not do so: for one track with
  two inlier observations and a triangulation that returns NaN, the point of the
  track is NaN after the call and both observations are still inliers.
\<close>

theorem multiViewTriangulation_nan_keeps_inliers:
  "multiViewTriangulation (\<lambda>cid fid. ()) (\<lambda>rays. (NaN, NaN, NaN)) (Finite 0, Finite 0, Finite 0)
     [[(0, 0), (1, 0)]] [[0 \<mapsto> [0 \<mapsto> 1], 1 \<mapsto> [0 \<mapsto> 1]]] [] =
   Inr ([[0 \<mapsto> [0 \<mapsto> 1], 1 \<mapsto> [0 \<mapsto> 1]]], [(NaN, NaN, NaN)]) \<and>
   bad_xyz (NaN, NaN, NaN)"
  by (simp add: multiViewTriangulation_def getMapValue_def resize_def bad_xyz_def)

text \<open>
  The version of interest\_point.cc flags both observations on the same input, and,
  on every input, all observations of a track whose point is bad after the call.
\<close>

lemma multiViewTriangulation_ip_nan_flags_outliers:
  "multiViewTriangulation_ip (\<lambda>cid fid. ()) (\<lambda>rays. (NaN, NaN, NaN)) (Finite 0, Finite 0, Finite 0)
     [[(0, 0), (1, 0)]] [[0 \<mapsto> [0 \<mapsto> 1], 1 \<mapsto> [0 \<mapsto> 1]]] [] =
   Inr ([[0 \<mapsto> [0 \<mapsto> 0], 1 \<mapsto> [0 \<mapsto> 0]]], [(NaN, NaN, NaN)])"
  by (simp add: multiViewTriangulation_ip_def getMapValue_def setMapValue_def resize_def
      bad_xyz_def Let_def)

lemma set_all_outliers_zero:
  assumes "set_all_outliers m pid t = Inr m'" and "(cid, fid) \<in> set t"
  shows "entry m' pid cid fid = Some 0"
  using assms
proof (induction t arbitrary: m)
  case Nil
  then show ?case by simp
next
  case (Cons cf t)
  obtain c f where cf: "cf = (c, f)" by (cases cf)
  from Cons.prems(1) obtain m1 where
    1: "setMapValue m pid c f 0 = Inr m1" and 2: "set_all_outliers m1 pid t = Inr m'"
    by (auto simp: cf split: sum.splits)
  show ?case
  proof (cases "(cid, fid) \<in> set t")
    case True
    from Cons.IH[OF 2 True] show ?thesis .
  next
    case False
    with Cons.prems(2) have "c = cid" "f = fid" by (auto simp: cf)
    with setMapValue_entry(3)[OF 1, of pid cid fid] have "entry m1 pid cid fid = Some 0"
      by simp
    moreover from set_all_outliers_cleared[OF 2] have
      "entry m' pid cid fid = entry m1 pid cid fid \<or> entry m' pid cid fid = Some 0"
      unfolding cleared_only_def by blast
    ultimately show ?thesis by auto
  qed
qed

lemma triangulate_tracks_ip_inv:
  assumes "triangulate_tracks_ip ray tri pid ts m xyz_vec = Inr (m', xyz_vec')"
  shows "cleared_only m m' \<and> (\<forall>q < pid. xyz_vec' ! q = xyz_vec ! q)"
  using assms
proof (induction ts arbitrary: pid m xyz_vec)
  case Nil
  then show ?case by (simp add: cleared_only_refl)
next
  case (Cons t ts)
  from Cons.prems obtain pix_vec where c: "collect_rays ray m pid t = Inr pix_vec"
    by (auto split: sum.splits)
  from Cons.prems c obtain m1 xyz1 where
    1: "m1 = m \<or> set_all_outliers m pid t = Inr m1"
    and x: "xyz1 = xyz_vec \<or> xyz1 = xyz_vec[pid := tri pix_vec]"
    and 2: "triangulate_tracks_ip ray tri (Suc pid) ts m1 xyz1 = Inr (m', xyz_vec')"
    by (auto simp: Let_def split: sum.splits if_splits)
  from 1 have "cleared_only m m1"
    by (auto simp: cleared_only_refl set_all_outliers_cleared)
  moreover from Cons.IH[OF 2] have i: "cleared_only m1 m'" "\<forall>q < Suc pid. xyz_vec' ! q = xyz1 ! q"
    by simp_all
  moreover from x have "\<forall>q < pid. xyz1 ! q = xyz_vec ! q"
    by auto
  ultimately show ?case
    using cleared_only_trans by (metis less_Suc_eq)
qed

lemma triangulate_tracks_ip_flags:
  assumes "triangulate_tracks_ip ray tri pid ts m xyz_vec = Inr (m', xyz_vec')"
    and "i < length ts" and "pid + i < length xyz_vec"
    and "bad_xyz (xyz_vec' ! (pid + i))" and "(cid, fid) \<in> set (ts ! i)"
  shows "entry m' (pid + i) cid fid = Some 0"
  using assms
proof (induction ts arbitrary: pid m xyz_vec i)
  case Nil
  then show ?case by simp
next
  case (Cons t ts)
  from Cons.prems(1) obtain pix_vec where c: "collect_rays ray m pid t = Inr pix_vec"
    by (auto split: sum.splits)
  show ?case
  proof (cases i)
    case 0
    have flagged: "entry m' pid cid fid = Some 0"
      if 1: "set_all_outliers m pid t = Inr m1"
        and 2: "triangulate_tracks_ip ray tri (Suc pid) ts m1 xyz1 = Inr (m', xyz_vec')"
      for m1 xyz1
    proof -
      from Cons.prems(5) 0 have "(cid, fid) \<in> set t" by simp
      from set_all_outliers_zero[OF 1 this] have "entry m1 pid cid fid = Some 0" .
      moreover from triangulate_tracks_ip_inv[OF 2] have
        "entry m' pid cid fid = entry m1 pid cid fid \<or> entry m' pid cid fid = Some 0"
        unfolding cleared_only_def by blast
      ultimately show ?thesis by auto
    qed
    show ?thesis
    proof (cases "length pix_vec < 2")
      case True
      with Cons.prems(1) c obtain m1 where
        "set_all_outliers m pid t = Inr m1"
        "triangulate_tracks_ip ray tri (Suc pid) ts m1 xyz_vec = Inr (m', xyz_vec')"
        by (auto split: sum.splits)
      then show ?thesis using flagged 0 by simp
    next
      case False
      let ?x = "xyz_vec[pid := tri pix_vec]"
      show ?thesis
      proof (cases "bad_xyz (?x ! pid)")
        case True
        with Cons.prems(1) c False obtain m1 where
          "set_all_outliers m pid t = Inr m1"
          "triangulate_tracks_ip ray tri (Suc pid) ts m1 ?x = Inr (m', xyz_vec')"
          by (auto simp: Let_def split: sum.splits)
        then show ?thesis using flagged 0 by simp
      next
        case nb: False
        with Cons.prems(1) c False have
          r: "triangulate_tracks_ip ray tri (Suc pid) ts m ?x = Inr (m', xyz_vec')"
          by (simp add: Let_def)
        from triangulate_tracks_ip_inv[OF r] have "xyz_vec' ! pid = ?x ! pid" by simp
        with nb Cons.prems(4) 0 show ?thesis by simp
      qed
    qed
  next
    case (Suc i')
    from Cons.prems(1) c obtain m1 xyz1 where
      x: "xyz1 = xyz_vec \<or> xyz1 = xyz_vec[pid := tri pix_vec]"
      and 2: "triangulate_tracks_ip ray tri (Suc pid) ts m1 xyz1 = Inr (m', xyz_vec')"
      by (auto simp: Let_def split: sum.splits if_splits)
    from x have "length xyz1 = length xyz_vec"
      by auto
    with Cons.IH[OF 2, of i'] Cons.prems(2-5) Suc show ?thesis
      by simp
  qed
qed

lemma multiViewTriangulation_ip_flags_failed_track:
  assumes "multiViewTriangulation_ip ray tri xyz_dflt pid_to_cid_fid inlier xyz_vec = Inr (inlier', xyz_vec')"
    and "pid < length pid_to_cid_fid" and "bad_xyz (xyz_vec' ! pid)"
    and "(cid, fid) \<in> set (pid_to_cid_fid ! pid)"
  shows "entry inlier' pid cid fid = Some 0"
  using triangulate_tracks_ip_flags[of ray tri 0 pid_to_cid_fid inlier
      "resize (length pid_to_cid_fid) xyz_dflt []" inlier' xyz_vec' pid cid fid] assms
  by (simp add: multiViewTriangulation_ip_def resize_def)


end
